theory Spec2Isabelle
  imports Main "HOL-Library.Word"
begin

section \<open>Go values\<close>

text \<open>
  Go's \<open>int\<close> is a 64-bit two's complement integer on the platforms the tool is built
  for: addition wraps, comparisons are signed (\<open><s\<close>, \<open>\<le>s\<close>).  A \<open>rune\<close> is kept as the
  bytes \<open>WriteRune\<close> emits for it (its UTF-8 encoding).  The \<open>io.Writer\<close> of a progress
  state is the sequence of chunks written to it so far.
\<close>

type_synonym go_int = "64 word"
type_synonym rune = string
type_synonym io_Writer = "string list"

definition Fprint :: "io_Writer \<Rightarrow> string \<Rightarrow> io_Writer" where
  "Fprint wr s = wr @ [s]"

function digits :: "nat \<Rightarrow> string" where
  "digits n = (if n < 10 then [char_of (48 + n)] else digits (n div 10) @ [char_of (48 + n mod 10)])"
  by pat_completeness auto
termination
  by (relation "measure id") auto

declare digits.simps [simp del]

text \<open>The verb \<open>%d\<close> of \<open>fmt.Sprintf\<close> on an \<open>int\<close>.\<close>

definition itoa :: "go_int \<Rightarrow> string" where
  "itoa x = (if x <s 0 then CHR ''-'' # digits (nat (- sint x)) else digits (nat (sint x)))"

section \<open>Package progress: ProgressState\<close>

record ProgressState =
  current :: go_int
  total :: go_int
  actualCurrent :: go_int
  message :: string
  writer :: io_Writer

definition NewProgressState :: "io_Writer \<Rightarrow> ProgressState" where
  "NewProgressState wr =
     \<lparr>current = 0, total = 0, actualCurrent = 0, message = [], writer = wr\<rparr>"

definition ProgressState_SetTotal ::
  "go_int \<Rightarrow> 'a ProgressState_scheme \<Rightarrow> 'a ProgressState_scheme" where
  "ProgressState_SetTotal n p = (let n1 = (if n <s 0 then 0 else n) in p\<lparr>total := n1\<rparr>)"

definition ProgressState_SetCurrent ::
  "go_int \<Rightarrow> 'a ProgressState_scheme \<Rightarrow> 'a ProgressState_scheme" where
  "ProgressState_SetCurrent c p =
     (let c1 = (if c <s 0 then 0 else c);
          p1 = p\<lparr>actualCurrent := c1\<rparr>;
          c2 = (if total p1 <s c1 \<and> 0 <s total p1 then total p1 else c1)
      in p1\<lparr>current := c2\<rparr>)"

definition ProgressState_IncrementBy ::
  "go_int \<Rightarrow> 'a ProgressState_scheme \<Rightarrow> 'a ProgressState_scheme" where
  "ProgressState_IncrementBy amount p =
     (if amount <s 0 then p
      else let newCurrent = actualCurrent p + amount in ProgressState_SetCurrent newCurrent p)"

definition ProgressState_Increment ::
  "'a ProgressState_scheme \<Rightarrow> 'a ProgressState_scheme" where
  "ProgressState_Increment p = ProgressState_IncrementBy 1 p"

definition ProgressState_SetMessage ::
  "string \<Rightarrow> 'a ProgressState_scheme \<Rightarrow> 'a ProgressState_scheme" where
  "ProgressState_SetMessage m p = p\<lparr>message := m\<rparr>"

definition ProgressState_Current :: "'a ProgressState_scheme \<Rightarrow> go_int" where
  "ProgressState_Current p = current p"

definition ProgressState_Total :: "'a ProgressState_scheme \<Rightarrow> go_int" where
  "ProgressState_Total p = total p"

definition ProgressState_Message :: "'a ProgressState_scheme \<Rightarrow> string" where
  "ProgressState_Message p = message p"

definition ProgressState_IsComplete :: "'a ProgressState_scheme \<Rightarrow> bool" where
  "ProgressState_IsComplete p \<longleftrightarrow> 0 <s total p \<and> total p \<le>s current p"

text \<open>
  \<open>Percentage\<close> and the bar's fill width go through \<open>float64\<close>:
  \<open>int(float64(a) / float64(b) * float64(c))\<close>.  IEEE arithmetic is not modelled; the
  conversion is the parameter \<open>fl a b c\<close> of everything that renders.
\<close>

type_synonym float_scale = "go_int \<Rightarrow> go_int \<Rightarrow> go_int \<Rightarrow> go_int"

definition ProgressState_Percentage :: "float_scale \<Rightarrow> 'a ProgressState_scheme \<Rightarrow> go_int" where
  "ProgressState_Percentage fl p = (if total p = 0 then 0 else fl (actualCurrent p) (total p) 100)"

definition ProgressState_String :: "float_scale \<Rightarrow> 'a ProgressState_scheme \<Rightarrow> string" where
  "ProgressState_String fl p =
     (if total p = 0 then itoa (current p) @ '' items processed''
      else itoa (current p) @ ''/'' @ itoa (total p) @ '' ('' @ itoa (ProgressState_Percentage fl p) @ ''%)'')"

text \<open>The calls a client can make on a progress state, and a run of them in order.\<close>

datatype state_call =
    StSetTotal go_int
  | StSetCurrent go_int
  | StIncrement
  | StIncrementBy go_int
  | StSetMessage string

fun state_step :: "'a ProgressState_scheme \<Rightarrow> state_call \<Rightarrow> 'a ProgressState_scheme" where
  "state_step p (StSetTotal n) = ProgressState_SetTotal n p"
| "state_step p (StSetCurrent c) = ProgressState_SetCurrent c p"
| "state_step p StIncrement = ProgressState_Increment p"
| "state_step p (StIncrementBy k) = ProgressState_IncrementBy k p"
| "state_step p (StSetMessage m) = ProgressState_SetMessage m p"

definition state_run :: "'a ProgressState_scheme \<Rightarrow> state_call list \<Rightarrow> 'a ProgressState_scheme" where
  "state_run p cs = foldl state_step p cs"

definition is_SetTotal :: "state_call \<Rightarrow> bool" where
  "is_SetTotal c = (case c of StSetTotal _ \<Rightarrow> True | _ \<Rightarrow> False)"

definition nonneg :: "'a ProgressState_scheme \<Rightarrow> bool" where
  "nonneg p \<longleftrightarrow> 0 \<le>s current p \<and> 0 \<le>s total p"

definition within_total :: "'a ProgressState_scheme \<Rightarrow> bool" where
  "within_total p \<longleftrightarrow> (0 <s total p \<longrightarrow> current p \<le>s total p)"



section \<open>Package progress: ProgressBar\<close>

text \<open>\<open>ProgressBar\<close> embeds \<open>*ProgressState\<close>: a record extension with the same fields.\<close>

record ProgressBar = ProgressState +
  width :: go_int
  barChar :: rune
  emptyChar :: rune
  showMsg :: bool
  finished :: bool
  errored :: bool

definition FULL_BLOCK :: rune where
  "FULL_BLOCK = [CHR 0xE2, CHR 0x96, CHR 0x88]"

definition LIGHT_SHADE :: rune where
  "LIGHT_SHADE = [CHR 0xE2, CHR 0x96, CHR 0x91]"

definition CHECK_MARK :: rune where
  "CHECK_MARK = [CHR 0xE2, CHR 0x9C, CHR 0x93]"

definition BALLOT_X :: rune where
  "BALLOT_X = [CHR 0xE2, CHR 0x9C, CHR 0x97]"

definition NewProgressBar :: "io_Writer \<Rightarrow> go_int \<Rightarrow> ProgressBar" where
  "NewProgressBar wr w =
     (let w1 = (if w \<le>s 0 then 40 else w)
      in \<lparr>current = 0, total = 0, actualCurrent = 0, message = [], writer = wr,
          width = w1, barChar = FULL_BLOCK, emptyChar = LIGHT_SHADE, showMsg = True,
          finished = False, errored = False\<rparr>)"

definition NewSimpleProgressBar :: "io_Writer \<Rightarrow> ProgressBar" where
  "NewSimpleProgressBar wr = NewProgressBar wr 40"

definition ProgressBar_SetBarChar :: "rune \<Rightarrow> ProgressBar \<Rightarrow> ProgressBar" where
  "ProgressBar_SetBarChar c pb = pb\<lparr>barChar := c\<rparr>"

definition ProgressBar_SetEmptyChar :: "rune \<Rightarrow> ProgressBar \<Rightarrow> ProgressBar" where
  "ProgressBar_SetEmptyChar c pb = pb\<lparr>emptyChar := c\<rparr>"

definition ProgressBar_SetShowMessage :: "bool \<Rightarrow> ProgressBar \<Rightarrow> ProgressBar" where
  "ProgressBar_SetShowMessage b pb = pb\<lparr>showMsg := b\<rparr>"

definition ProgressBar_SetWidth :: "go_int \<Rightarrow> ProgressBar \<Rightarrow> ProgressBar" where
  "ProgressBar_SetWidth w pb = (if 0 <s w then pb\<lparr>width := w\<rparr> else pb)"

text \<open>
  The two \<open>for\<close> loops that write the filled and the empty part of the bar: the first runs
  \<open>filledWidth\<close> times, the second from \<open>filledWidth\<close> up to \<open>width\<close> (not at all when the
  bound is not above the start).
\<close>

definition write_runes :: "int \<Rightarrow> int \<Rightarrow> rune \<Rightarrow> string" where
  "write_runes lo hi c = concat (replicate (nat (hi - lo)) c)"

definition filledWidth :: "float_scale \<Rightarrow> ProgressBar \<Rightarrow> go_int" where
  "filledWidth fl pb =
     (let fw = (if 0 <s total pb then fl (current pb) (total pb) (width pb) else 0)
      in if width pb <s fw then width pb else fw)"

definition message_suffix :: "ProgressBar \<Rightarrow> string" where
  "message_suffix pb = (if showMsg pb \<and> message pb \<noteq> [] then '' - '' @ message pb else [])"

definition ProgressBar_Render :: "float_scale \<Rightarrow> ProgressBar \<Rightarrow> string" where
  "ProgressBar_Render fl pb =
     (if finished pb \<or> errored pb then []
      else let fw = filledWidth fl pb
           in ''['' @ write_runes 0 (sint fw) (barChar pb)
              @ write_runes (sint fw) (sint (width pb)) (emptyChar pb) @ '']''
              @ '' '' @ ProgressState_String fl pb @ message_suffix pb)"

definition ProgressBar_Display :: "float_scale \<Rightarrow> ProgressBar \<Rightarrow> ProgressBar" where
  "ProgressBar_Display fl pb =
     (if finished pb \<or> errored pb then pb
      else let rendered = ProgressBar_Render fl pb
           in if rendered \<noteq> [] then pb\<lparr>writer := Fprint (writer pb) (CHR 0x0D # rendered)\<rparr>
              else pb)"

definition ProgressBar_Update :: "float_scale \<Rightarrow> ProgressBar \<Rightarrow> ProgressBar" where
  "ProgressBar_Update fl pb = ProgressBar_Display fl pb"

definition ProgressBar_Finish :: "float_scale \<Rightarrow> ProgressBar \<Rightarrow> ProgressBar" where
  "ProgressBar_Finish fl pb =
     (if finished pb then pb
      else let pb1 = pb\<lparr>finished := True\<rparr>;
               result = ''['' @ write_runes 0 (sint (width pb1)) (barChar pb1) @ '']''
                        @ '' '' @ ProgressState_String fl pb1 @ message_suffix pb1
                        @ '' '' @ CHECK_MARK @ [CHR 0x0A]
           in pb1\<lparr>writer := Fprint (writer pb1) (CHR 0x0D # result)\<rparr>)"

definition ProgressBar_Increment :: "float_scale \<Rightarrow> ProgressBar \<Rightarrow> ProgressBar" where
  "ProgressBar_Increment fl pb =
     (if errored pb \<or> finished pb then pb
      else ProgressBar_Update fl (ProgressState_Increment pb))"

definition ProgressBar_IncrementBy :: "float_scale \<Rightarrow> go_int \<Rightarrow> ProgressBar \<Rightarrow> ProgressBar" where
  "ProgressBar_IncrementBy fl amount pb =
     (if errored pb \<or> finished pb then pb
      else ProgressBar_Update fl (ProgressState_IncrementBy amount pb))"

definition ProgressBar_SetCurrent :: "float_scale \<Rightarrow> go_int \<Rightarrow> ProgressBar \<Rightarrow> ProgressBar" where
  "ProgressBar_SetCurrent fl c pb =
     (if errored pb \<or> finished pb then pb
      else ProgressBar_Update fl (ProgressState_SetCurrent c pb))"

definition ProgressBar_SetTotal :: "float_scale \<Rightarrow> go_int \<Rightarrow> ProgressBar \<Rightarrow> ProgressBar" where
  "ProgressBar_SetTotal fl n pb =
     (if errored pb \<or> finished pb then pb
      else ProgressBar_Update fl (ProgressState_SetTotal n pb))"

definition ProgressBar_SetMessage :: "float_scale \<Rightarrow> string \<Rightarrow> ProgressBar \<Rightarrow> ProgressBar" where
  "ProgressBar_SetMessage fl m pb =
     (if errored pb \<or> finished pb then pb
      else ProgressBar_Update fl (ProgressState_SetMessage m pb))"

text \<open>
  Inside package progress an \<open>error\<close> is used only through \<open>err != nil\<close> and
  \<open>err.Error()\<close>: it is modelled by its message, \<open>None\<close> for \<open>nil\<close>.
\<close>

definition ProgressBar_SetError :: "float_scale \<Rightarrow> string option \<Rightarrow> ProgressBar \<Rightarrow> ProgressBar" where
  "ProgressBar_SetError fl err pb =
     (if finished pb then pb
      else let pb1 = pb\<lparr>errored := True, finished := True\<rparr>;
               fw = filledWidth fl pb1;
               result = ''['' @ write_runes 0 (sint fw) (barChar pb1)
                        @ write_runes (sint fw) (sint (width pb1)) (emptyChar pb1) @ '']''
                        @ '' '' @ ProgressState_String fl pb1 @ message_suffix pb1
                        @ '' '' @ BALLOT_X
                        @ (case err of None \<Rightarrow> [] | Some msg \<Rightarrow> '' - Error: '' @ msg)
                        @ [CHR 0x0A]
           in pb1\<lparr>writer := Fprint (writer pb1) (CHR 0x0D # result)\<rparr>)"

definition ProgressBar_IsErrored :: "ProgressBar \<Rightarrow> bool" where
  "ProgressBar_IsErrored pb = errored pb"

section \<open>Package progress: the ProgressReporter interface\<close>

text \<open>
  A value of the interface is a record of its methods over the implementation's state
  \<open>'r\<close>; a method with no result returns the updated state.
\<close>

record 'r ProgressReporter =
  SetTotal :: "go_int \<Rightarrow> 'r \<Rightarrow> 'r"
  Increment :: "'r \<Rightarrow> 'r"
  IncrementBy :: "go_int \<Rightarrow> 'r \<Rightarrow> 'r"
  SetCurrent :: "go_int \<Rightarrow> 'r \<Rightarrow> 'r"
  SetMessage :: "string \<Rightarrow> 'r \<Rightarrow> 'r"
  Finish :: "'r \<Rightarrow> 'r"
  SetError :: "string option \<Rightarrow> 'r \<Rightarrow> 'r"
  IsComplete :: "'r \<Rightarrow> bool"
  Current :: "'r \<Rightarrow> go_int"
  Total :: "'r \<Rightarrow> go_int"

definition NoOpReporter :: "unit ProgressReporter" where
  "NoOpReporter =
     \<lparr>SetTotal = (\<lambda>n r. r), Increment = (\<lambda>r. r), IncrementBy = (\<lambda>k r. r),
      SetCurrent = (\<lambda>c r. r), SetMessage = (\<lambda>m r. r), Finish = (\<lambda>r. r),
      SetError = (\<lambda>e r. r), IsComplete = (\<lambda>r. False), Current = (\<lambda>r. 0),
      Total = (\<lambda>r. 0)\<rparr>"

definition ProgressBar_reporter :: "float_scale \<Rightarrow> ProgressBar ProgressReporter" where
  "ProgressBar_reporter fl =
     \<lparr>SetTotal = ProgressBar_SetTotal fl, Increment = ProgressBar_Increment fl,
      IncrementBy = ProgressBar_IncrementBy fl, SetCurrent = ProgressBar_SetCurrent fl,
      SetMessage = ProgressBar_SetMessage fl, Finish = ProgressBar_Finish fl,
      SetError = ProgressBar_SetError fl, IsComplete = ProgressState_IsComplete,
      Current = ProgressState_Current, Total = ProgressState_Total\<rparr>"

text \<open>
  The calls a client can make through the interface, a run of calls on a reporter, and the
  reporter that only records the calls made on it, in order (an observation log).
\<close>

datatype reporter_call =
    CallSetTotal go_int
  | CallIncrement
  | CallIncrementBy go_int
  | CallSetCurrent go_int
  | CallSetMessage string
  | CallFinish
  | CallSetError "string option"

fun call_step :: "'r ProgressReporter \<Rightarrow> 'r \<Rightarrow> reporter_call \<Rightarrow> 'r" where
  "call_step rep r (CallSetTotal n) = SetTotal rep n r"
| "call_step rep r CallIncrement = Increment rep r"
| "call_step rep r (CallIncrementBy k) = IncrementBy rep k r"
| "call_step rep r (CallSetCurrent c) = SetCurrent rep c r"
| "call_step rep r (CallSetMessage m) = SetMessage rep m r"
| "call_step rep r CallFinish = Finish rep r"
| "call_step rep r (CallSetError e) = SetError rep e r"

definition calls_run :: "'r ProgressReporter \<Rightarrow> 'r \<Rightarrow> reporter_call list \<Rightarrow> 'r" where
  "calls_run rep r cs = foldl (call_step rep) r cs"

definition recorder :: "reporter_call list ProgressReporter" where
  "recorder =
     \<lparr>SetTotal = (\<lambda>n r. r @ [CallSetTotal n]), Increment = (\<lambda>r. r @ [CallIncrement]),
      IncrementBy = (\<lambda>k r. r @ [CallIncrementBy k]),
      SetCurrent = (\<lambda>c r. r @ [CallSetCurrent c]),
      SetMessage = (\<lambda>m r. r @ [CallSetMessage m]), Finish = (\<lambda>r. r @ [CallFinish]),
      SetError = (\<lambda>e r. r @ [CallSetError e]), IsComplete = (\<lambda>r. False),
      Current = (\<lambda>r. 0), Total = (\<lambda>r. 0)\<rparr>"

section \<open>Package files: operations and errors\<close>

datatype OperationType = OperationCopy | OperationMove

fun OperationType_String :: "OperationType \<Rightarrow> string" where
  "OperationType_String OperationCopy = ''copy''"
| "OperationType_String OperationMove = ''move''"

text \<open>
  The two implementations of the \<open>Operation\<close> interface, each with its fields \<open>src\<close> and
  \<open>dst\<close>.
\<close>

datatype Operation = CopyOperation string string | MoveOperation string string

fun Source :: "Operation \<Rightarrow> string" where
  "Source (CopyOperation s d) = s"
| "Source (MoveOperation s d) = s"

fun Destination :: "Operation \<Rightarrow> string" where
  "Destination (CopyOperation s d) = d"
| "Destination (MoveOperation s d) = d"

fun Type :: "Operation \<Rightarrow> OperationType" where
  "Type (CopyOperation s d) = OperationCopy"
| "Type (MoveOperation s d) = OperationMove"

text \<open>
  Errors are values.  A function of package \<open>os\<close> fails with an error number; \<open>OsError\<close>
  is the Go error carrying it.  \<open>Errorf f strs errs\<close> is the error built by
  \<open>fmt.Errorf\<close> (or \<open>errors.New\<close>) from the format \<open>f\<close>, its string operands and its error
  operands, each in order of appearance.  \<open>TransactionError\<close> is the struct of that name;
  its \<open>Operation\<close> is \<open>None\<close> where the source leaves the field \<open>nil\<close>.
\<close>

datatype errno = ENOENT | EEXIST | EPERM | EACCES | ENOTDIR | EISDIR | ENOTEMPTY | EXDEV | EIO | ENOSPC

datatype error =
    OsError errno
  | Errorf string "string list" "error list"
  | TransactionError (Phase: string) (Operation: "Operation option") (Err: error)

text \<open>\<open>os.IsNotExist\<close> and \<open>errors.Is(err, os.ErrNotExist)\<close> on an error of package \<open>os\<close>.\<close>

definition os_IsNotExist :: "errno \<Rightarrow> bool" where
  "os_IsNotExist e \<longleftrightarrow> e = ENOENT"

text \<open>
  The functions of the standard library that the package calls are parameters: they act
  on a state \<open>'w\<close> of the world outside the program.  \<open>os_Stat\<close> only reads; its result
  is the error or \<open>info.IsDir()\<close>.  \<open>copy_file\<close> stands for the transfer that
  \<open>Files.Copy\<close> performs once its arguments are validated (open, stat, create the parent
  directory, exclusive create, \<open>io.Copy\<close>, sync, close, removing the destination on
  failure).
\<close>

record 'w os_pkg =
  os_Stat :: "string \<Rightarrow> 'w \<Rightarrow> errno + bool"
  os_Remove :: "string \<Rightarrow> 'w \<Rightarrow> errno option \<times> 'w"
  os_Rename :: "string \<Rightarrow> string \<Rightarrow> 'w \<Rightarrow> errno option \<times> 'w"
  os_MkdirAll :: "string \<Rightarrow> nat \<Rightarrow> 'w \<Rightarrow> errno option \<times> 'w"
  filepath_Dir :: "string \<Rightarrow> string"
  copy_file :: "string \<Rightarrow> string \<Rightarrow> 'w \<Rightarrow> error option \<times> 'w"

text \<open>The methods of the \<open>FilesService\<close> interface that the transaction engine calls.\<close>

record 'w FilesService =
  IsFile :: "string \<Rightarrow> 'w \<Rightarrow> bool"
  IsDirectory :: "string \<Rightarrow> 'w \<Rightarrow> bool"
  Copy :: "string \<Rightarrow> string \<Rightarrow> 'w \<Rightarrow> error option \<times> 'w"
  EnsureDir :: "string \<Rightarrow> nat \<Rightarrow> 'w \<Rightarrow> error option \<times> 'w"
  ValidateCopyArgs :: "string \<Rightarrow> string \<Rightarrow> 'w \<Rightarrow> error option"

subsection \<open>The implementation Files\<close>

definition Files_IsFile :: "'w os_pkg \<Rightarrow> string \<Rightarrow> 'w \<Rightarrow> bool" where
  "Files_IsFile os path w = (case os_Stat os path w of Inl err \<Rightarrow> False | Inr isDir \<Rightarrow> \<not> isDir)"

definition Files_IsDirectory :: "'w os_pkg \<Rightarrow> string \<Rightarrow> 'w \<Rightarrow> bool" where
  "Files_IsDirectory os path w = (case os_Stat os path w of Inl err \<Rightarrow> False | Inr isDir \<Rightarrow> isDir)"

definition Files_EnsureDir :: "'w os_pkg \<Rightarrow> string \<Rightarrow> nat \<Rightarrow> 'w \<Rightarrow> error option \<times> 'w" where
  "Files_EnsureDir os path perm w =
     (if path = [] then (Some (Errorf ''directory path is empty'' [] []), w)
      else case os_MkdirAll os path perm w of
             (Some err, w1) \<Rightarrow> (Some (Errorf ''creating directory %q: %w'' [path] [OsError err]), w1)
           | (None, w1) \<Rightarrow> (None, w1))"

definition Files_ValidateCopyArgs :: "'w os_pkg \<Rightarrow> string \<Rightarrow> string \<Rightarrow> 'w \<Rightarrow> error option" where
  "Files_ValidateCopyArgs os s d w =
     (if s = [] \<or> d = [] then Some (Errorf ''source and destination must be provided'' [] [])
      else if \<not> Files_IsFile os s w then Some (Errorf ''source %q is not a regular file'' [s] [])
      else case os_Stat os d w of
             Inr info \<Rightarrow> Some (Errorf ''destination %q already exists'' [d] [])
           | Inl err \<Rightarrow>
               if \<not> os_IsNotExist err then Some (Errorf ''checking destination: %w'' [] [OsError err])
               else None)"

definition Files_Copy :: "'w os_pkg \<Rightarrow> string \<Rightarrow> string \<Rightarrow> 'w \<Rightarrow> error option \<times> 'w" where
  "Files_Copy os s d w =
     (case Files_ValidateCopyArgs os s d w of
        Some err \<Rightarrow> (Some err, w)
      | None \<Rightarrow> copy_file os s d w)"

definition Files :: "'w os_pkg \<Rightarrow> 'w FilesService" where
  "Files os =
     \<lparr>IsFile = Files_IsFile os, IsDirectory = Files_IsDirectory os, Copy = Files_Copy os,
      EnsureDir = Files_EnsureDir os, ValidateCopyArgs = Files_ValidateCopyArgs os\<rparr>"

subsection \<open>Execute and Rollback of one operation\<close>

definition CopyOperation_Execute ::
  "'w FilesService \<Rightarrow> string \<Rightarrow> string \<Rightarrow> 'w \<Rightarrow> error option \<times> 'w" where
  "CopyOperation_Execute svc s d w = Copy svc s d w"

definition CopyOperation_Rollback ::
  "'w os_pkg \<Rightarrow> string \<Rightarrow> string \<Rightarrow> 'w \<Rightarrow> error option \<times> 'w" where
  "CopyOperation_Rollback os s d w =
     (case os_Remove os d w of
        (Some err, w1) \<Rightarrow>
          if \<not> os_IsNotExist err
          then (Some (Errorf ''failed to remove copied file %q: %w'' [d] [OsError err]), w1)
          else (None, w1)
      | (None, w1) \<Rightarrow> (None, w1))"

definition MoveOperation_Execute ::
  "'w FilesService \<Rightarrow> 'w os_pkg \<Rightarrow> string \<Rightarrow> string \<Rightarrow> 'w \<Rightarrow> error option \<times> 'w" where
  "MoveOperation_Execute svc os s d w =
     (case EnsureDir svc (filepath_Dir os d) 493 w of
        (Some err, w1) \<Rightarrow> (Some err, w1)
      | (None, w1) \<Rightarrow>
          (case os_Rename os s d w1 of
             (Some err, w2) \<Rightarrow> (Some (Errorf ''move %q to %q: %w'' [s, d] [OsError err]), w2)
           | (None, w2) \<Rightarrow> (None, w2)))"

definition MoveOperation_Rollback ::
  "'w os_pkg \<Rightarrow> string \<Rightarrow> string \<Rightarrow> 'w \<Rightarrow> error option \<times> 'w" where
  "MoveOperation_Rollback os s d w =
     (case os_Rename os d s w of
        (Some err, w1) \<Rightarrow>
          if \<not> os_IsNotExist err
          then (Some (Errorf ''failed to restore moved file %q to %q: %w'' [d, s] [OsError err]), w1)
          else (None, w1)
      | (None, w1) \<Rightarrow> (None, w1))"

text \<open>Dispatch through the \<open>Operation\<close> interface.\<close>

fun Operation_Execute ::
  "'w FilesService \<Rightarrow> 'w os_pkg \<Rightarrow> Operation \<Rightarrow> 'w \<Rightarrow> error option \<times> 'w" where
  "Operation_Execute svc os (CopyOperation s d) w = CopyOperation_Execute svc s d w"
| "Operation_Execute svc os (MoveOperation s d) w = MoveOperation_Execute svc os s d w"

fun Operation_Rollback ::
  "'w FilesService \<Rightarrow> 'w os_pkg \<Rightarrow> Operation \<Rightarrow> 'w \<Rightarrow> error option \<times> 'w" where
  "Operation_Rollback svc os (CopyOperation s d) w = CopyOperation_Rollback os s d w"
| "Operation_Rollback svc os (MoveOperation s d) w = MoveOperation_Rollback os s d w"

section \<open>Package files: FileTransaction\<close>

record 'w FileTransaction =
  fs :: "'w FilesService"
  operations :: "Operation list"
  completed :: "Operation list"
  overwrite :: bool

definition NewTransaction :: "'w FilesService \<Rightarrow> bool \<Rightarrow> 'w FileTransaction" where
  "NewTransaction svc ov = \<lparr>fs = svc, operations = [], completed = [], overwrite = ov\<rparr>"

definition AddCopy :: "string \<Rightarrow> string \<Rightarrow> 'w FileTransaction \<Rightarrow> error option \<times> 'w FileTransaction" where
  "AddCopy s d ft = (None, ft\<lparr>operations := operations ft @ [CopyOperation s d]\<rparr>)"

definition AddMove :: "string \<Rightarrow> string \<Rightarrow> 'w FileTransaction \<Rightarrow> error option \<times> 'w FileTransaction" where
  "AddMove s d ft = (None, ft\<lparr>operations := operations ft @ [MoveOperation s d]\<rparr>)"

text \<open>The body of the loop of \<open>Validate\<close> for one operation, and the loop.\<close>

definition validate_op :: "'w FilesService \<Rightarrow> bool \<Rightarrow> Operation \<Rightarrow> 'w \<Rightarrow> error option" where
  "validate_op svc ov op w =
     (if \<not> ov then
        (case ValidateCopyArgs svc (Source op) (Destination op) w of
           Some err \<Rightarrow> Some (TransactionError ''planning'' (Some op) err)
         | None \<Rightarrow> None)
      else if Source op = [] \<or> Destination op = [] then
        Some (TransactionError ''planning'' (Some op)
                (Errorf ''source and destination must be provided'' [] []))
      else if \<not> IsFile svc (Source op) w then
        Some (TransactionError ''planning'' (Some op)
                (Errorf ''source %q is not a regular file'' [Source op] []))
      else None)"

fun validate_loop :: "'w FilesService \<Rightarrow> bool \<Rightarrow> Operation list \<Rightarrow> 'w \<Rightarrow> error option" where
  "validate_loop svc ov [] w = None"
| "validate_loop svc ov (op # ops) w =
     (case validate_op svc ov op w of
        Some err \<Rightarrow> Some err
      | None \<Rightarrow> validate_loop svc ov ops w)"

text \<open>
  A method with a pointer receiver returns the transaction as it leaves it, next to its
  result.
\<close>

definition FileTransaction_Validate ::
  "'w FileTransaction \<Rightarrow> 'w \<Rightarrow> error option \<times> 'w FileTransaction" where
  "FileTransaction_Validate ft w = (validate_loop (fs ft) (overwrite ft) (operations ft) w, ft)"

text \<open>
  The loop of \<open>Rollback\<close>: \<open>for i := len(ft.completed) - 1; i >= 0; i--\<close>.  The counter of
  the model is \<open>i + 1\<close>.
\<close>

fun rollback_loop ::
  "'w FilesService \<Rightarrow> 'w os_pkg \<Rightarrow> Operation list \<Rightarrow> nat \<Rightarrow> error list \<Rightarrow> 'w \<Rightarrow> error list \<times> 'w" where
  "rollback_loop svc os cs 0 rollbackErrors w = (rollbackErrors, w)"
| "rollback_loop svc os cs (Suc i) rollbackErrors w =
     (let op = cs ! i in
      case Operation_Rollback svc os op w of
        (Some err, w1) \<Rightarrow>
          rollback_loop svc os cs i
            (rollbackErrors @
               [Errorf ''failed to rollback %s %s->%s: %w''
                  [OperationType_String (Type op), Source op, Destination op] [err]]) w1
      | (None, w1) \<Rightarrow> rollback_loop svc os cs i rollbackErrors w1)"

definition FileTransaction_Rollback ::
  "'w os_pkg \<Rightarrow> 'w FileTransaction \<Rightarrow> 'w \<Rightarrow> error option \<times> 'w FileTransaction \<times> 'w" where
  "FileTransaction_Rollback os ft w =
     (case rollback_loop (fs ft) os (completed ft) (length (completed ft)) [] w of
        (rollbackErrors, w1) \<Rightarrow>
          (let ft1 = ft\<lparr>completed := []\<rparr> in
           if rollbackErrors \<noteq> []
           then (Some (TransactionError ''rollback'' None
                         (Errorf ''rollback errors: %v'' [] rollbackErrors)), ft1, w1)
           else (None, ft1, w1)))"

text \<open>
  The loop of \<open>ExecuteWithProgress\<close> over the operations from index \<open>i\<close> on.  It returns
  an error when it left the function early, \<open>None\<close> when it ran to its end.
\<close>

fun execute_loop ::
  "'w os_pkg \<Rightarrow> 'r ProgressReporter \<Rightarrow> go_int \<Rightarrow> Operation list \<Rightarrow> 'w FileTransaction \<Rightarrow> 'r \<Rightarrow> 'w
     \<Rightarrow> error option \<times> 'w FileTransaction \<times> 'r \<times> 'w" where
  "execute_loop os rep i [] ft r w = (None, ft, r, w)"
| "execute_loop os rep i (op # ops) ft r w =
     (let r1 = SetMessage rep (OperationType_String (Type op) @ '' '' @ Source op) r in
      case Operation_Execute (fs ft) os op w of
        (Some err, w1) \<Rightarrow>
          (case FileTransaction_Rollback os ft w1 of
             (Some rollbackErr, ft1, w2) \<Rightarrow>
               (Some (TransactionError ''execution'' (Some op)
                        (Errorf ''execution failed: %v; rollback also failed: %v'' []
                           [err, rollbackErr])), ft1, r1, w2)
           | (None, ft1, w2) \<Rightarrow>
               (Some (TransactionError ''execution'' (Some op) err), ft1, r1, w2))
      | (None, w1) \<Rightarrow>
          execute_loop os rep (i + 1) ops (ft\<lparr>completed := completed ft @ [op]\<rparr>)
            (SetCurrent rep (i + 1) r1) w1)"

definition FileTransaction_ExecuteWithProgress ::
  "'w os_pkg \<Rightarrow> 'r ProgressReporter \<Rightarrow> 'w FileTransaction \<Rightarrow> 'r \<Rightarrow> 'w
     \<Rightarrow> error option \<times> 'w FileTransaction \<times> 'r \<times> 'w" where
  "FileTransaction_ExecuteWithProgress os rep ft r w =
     (let ft0 = ft\<lparr>completed := []\<rparr>;
          r0 = SetCurrent rep 0 (SetTotal rep (of_nat (length (operations ft0))) r)
      in case execute_loop os rep 0 (operations ft0) ft0 r0 w of
           (Some err, ft1, r1, w1) \<Rightarrow> (Some err, ft1, r1, w1)
         | (None, ft1, r1, w1) \<Rightarrow> (None, ft1, Finish rep r1, w1))"

definition FileTransaction_Execute ::
  "'w os_pkg \<Rightarrow> 'w FileTransaction \<Rightarrow> 'w \<Rightarrow> error option \<times> 'w FileTransaction \<times> 'w" where
  "FileTransaction_Execute os ft w =
     (case FileTransaction_ExecuteWithProgress os NoOpReporter ft () w of
        (res, ft1, r1, w1) \<Rightarrow> (res, ft1, w1))"

definition FileTransaction_Operations :: "'w FileTransaction \<Rightarrow> Operation list" where
  "FileTransaction_Operations ft = operations ft"


section \<open>Reference behaviour of the engine\<close>

text \<open>
  What the specification says, written independently of the loops above, to compare them
  with.  \<open>execute_all\<close> runs operations in order and yields the resulting world when every
  one of them succeeds.
\<close>

fun execute_all :: "'w FilesService \<Rightarrow> 'w os_pkg \<Rightarrow> Operation list \<Rightarrow> 'w \<Rightarrow> 'w option" where
  "execute_all svc os [] w = Some w"
| "execute_all svc os (op # ops) w =
     (case Operation_Execute svc os op w of
        (None, w1) \<Rightarrow> execute_all svc os ops w1
      | (Some err, w1) \<Rightarrow> None)"

text \<open>
  \<open>rollback_steps\<close> invokes the rollback of every operation of a list, first to last,
  whatever the earlier ones returned, and yields each operation with its outcome, in order
  of invocation, and the world after the last one.
\<close>

fun rollback_steps ::
  "'w FilesService \<Rightarrow> 'w os_pkg \<Rightarrow> Operation list \<Rightarrow> 'w \<Rightarrow> (Operation \<times> error option) list \<times> 'w" where
  "rollback_steps svc os [] w = ([], w)"
| "rollback_steps svc os (op # ops) w =
     (case Operation_Rollback svc os op w of
        (res, w1) \<Rightarrow>
          (case rollback_steps svc os ops w1 of
             (out, w2) \<Rightarrow> ((op, res) # out, w2)))"

fun rollback_failures :: "(Operation \<times> error option) list \<Rightarrow> error list" where
  "rollback_failures [] = []"
| "rollback_failures ((op, None) # out) = rollback_failures out"
| "rollback_failures ((op, Some err) # out) =
     Errorf ''failed to rollback %s %s->%s: %w''
       [OperationType_String (Type op), Source op, Destination op] [err]
     # rollback_failures out"

definition rollback_result :: "error list \<Rightarrow> error option" where
  "rollback_result errs =
     (if errs = [] then None
      else Some (TransactionError ''rollback'' None (Errorf ''rollback errors: %v'' [] errs)))"

text \<open>
  The error \<open>ExecuteWithProgress\<close> returns for a failing operation \<open>op\<close> whose execution
  error is \<open>err\<close>, given what the rollback returned.
\<close>

definition execution_error :: "Operation \<Rightarrow> error \<Rightarrow> error option \<Rightarrow> error" where
  "execution_error op err rb =
     TransactionError ''execution'' (Some op)
       (case rb of
          None \<Rightarrow> err
        | Some rollbackErr \<Rightarrow>
            Errorf ''execution failed: %v; rollback also failed: %v'' [] [err, rollbackErr])"

text \<open>
  No move of the run replaces anything: when a move operation is executed, \<open>os.Stat\<close>
  finds nothing at its destination.  (A copy checks this itself before it writes.)
\<close>

fun moves_onto_nothing :: "'w FilesService \<Rightarrow> 'w os_pkg \<Rightarrow> Operation list \<Rightarrow> 'w \<Rightarrow> bool" where
  "moves_onto_nothing svc os [] w = True"
| "moves_onto_nothing svc os (op # ops) w =
     ((case op of
         MoveOperation s d \<Rightarrow> os_Stat os d w = Inl ENOENT
       | CopyOperation s d \<Rightarrow> True)
      \<and> (case Operation_Execute svc os op w of
            (None, w1) \<Rightarrow> moves_onto_nothing svc os ops w1
          | (Some err, w1) \<Rightarrow> True))"

text \<open>The calls that reach the reporter, as the specification lists them.\<close>

definition op_message :: "Operation \<Rightarrow> string" where
  "op_message op = OperationType_String (Type op) @ '' '' @ Source op"

fun progress_calls :: "nat \<Rightarrow> Operation list \<Rightarrow> reporter_call list" where
  "progress_calls i [] = []"
| "progress_calls i (op # ops) =
     CallSetMessage (op_message op) # CallSetCurrent (of_nat (Suc i)) # progress_calls (Suc i) ops"

definition start_calls :: "Operation list \<Rightarrow> reporter_call list" where
  "start_calls ops = [CallSetTotal (of_nat (length ops)), CallSetCurrent 0]"

definition success_calls :: "Operation list \<Rightarrow> reporter_call list" where
  "success_calls ops = start_calls ops @ progress_calls 0 ops @ [CallFinish]"

definition failure_calls :: "Operation list \<Rightarrow> Operation \<Rightarrow> Operation list \<Rightarrow> reporter_call list" where
  "failure_calls pre op rest =
     start_calls (pre @ op # rest) @ progress_calls 0 pre @ [CallSetMessage (op_message op)]"

fun SetCurrent_values :: "reporter_call list \<Rightarrow> go_int list" where
  "SetCurrent_values [] = []"
| "SetCurrent_values (CallSetCurrent c # cs) = c # SetCurrent_values cs"
| "SetCurrent_values (c # cs) = SetCurrent_values cs"

definition is_terminal_call :: "reporter_call \<Rightarrow> bool" where
  "is_terminal_call c = (case c of CallFinish \<Rightarrow> True | CallSetError e \<Rightarrow> True | _ \<Rightarrow> False)"

section \<open>Test doubles\<close>

text \<open>
  An in-memory file system: the regular files with their contents (an association list,
  the first entry of a path counts), the directories that exist besides the two roots
  \<open>.\<close> and \<open>/\<close>, and a set of sealed paths.  A sealed path lies in an append-only
  directory: an entry may be created there, but not unlinked, renamed away or replaced
  (\<open>EPERM\<close>).  A path that does not exist gives \<open>ENOENT\<close>, or \<open>ENOTDIR\<close> when the
  path of its directory is a regular file; so does a rename into a directory that does not
  exist.  \<open>os.Remove\<close> removes a regular file or an empty directory.  Renaming a directory
  is not supported by the double (\<open>EXDEV\<close>).
\<close>

record memfs =
  files :: "(string \<times> string) list"
  dirs :: "string list"
  sealed :: "string set"

definition entries :: "memfs \<Rightarrow> string \<rightharpoonup> string" where
  "entries w = map_of (files w)"

definition is_dir :: "memfs \<Rightarrow> string \<Rightarrow> bool" where
  "is_dir w p \<longleftrightarrow> p = ''.'' \<or> p = ''/'' \<or> p \<in> set (dirs w)"

definition put_file :: "string \<Rightarrow> string \<Rightarrow> memfs \<Rightarrow> memfs" where
  "put_file p c w = w\<lparr>files := (p, c) # filter (\<lambda>x. fst x \<noteq> p) (files w)\<rparr>"

definition drop_file :: "string \<Rightarrow> memfs \<Rightarrow> memfs" where
  "drop_file p w = w\<lparr>files := filter (\<lambda>x. fst x \<noteq> p) (files w)\<rparr>"

definition mem_Dir :: "string \<Rightarrow> string" where
  "mem_Dir p =
     (let d = rev (dropWhile (\<lambda>c. c \<noteq> CHR ''/'') (rev p))
      in if d = [] then ''.'' else if d = ''/'' then d else butlast d)"

definition has_children :: "memfs \<Rightarrow> string \<Rightarrow> bool" where
  "has_children w p \<longleftrightarrow>
     list_ex (\<lambda>x. mem_Dir (fst x) = p) (files w) \<or> list_ex (\<lambda>q. mem_Dir q = p) (dirs w)"

definition missing_errno :: "memfs \<Rightarrow> string \<Rightarrow> errno" where
  "missing_errno w p = (if entries w (mem_Dir p) \<noteq> None then ENOTDIR else ENOENT)"

definition mem_Stat :: "string \<Rightarrow> memfs \<Rightarrow> errno + bool" where
  "mem_Stat p w =
     (case entries w p of
        Some c \<Rightarrow> Inr False
      | None \<Rightarrow> if is_dir w p then Inr True else Inl (missing_errno w p))"

definition mem_Remove :: "string \<Rightarrow> memfs \<Rightarrow> errno option \<times> memfs" where
  "mem_Remove p w =
     (case entries w p of
        Some c \<Rightarrow>
          if p \<in> sealed w then (Some EPERM, w)
          else (None, drop_file p w)
      | None \<Rightarrow>
          if is_dir w p then
            (if p \<notin> set (dirs w) \<or> has_children w p then (Some ENOTEMPTY, w)
             else (None, w\<lparr>dirs := removeAll p (dirs w)\<rparr>))
          else (Some (missing_errno w p), w))"

definition mem_Rename :: "string \<Rightarrow> string \<Rightarrow> memfs \<Rightarrow> errno option \<times> memfs" where
  "mem_Rename old new w =
     (case entries w old of
        None \<Rightarrow>
          if is_dir w old then (Some EXDEV, w)
          else (Some (missing_errno w old), w)
      | Some c \<Rightarrow>
          if \<not> is_dir w (mem_Dir new) then (Some (missing_errno w new), w)
          else if old \<in> sealed w \<or> (entries w new \<noteq> None \<and> new \<in> sealed w) then (Some EPERM, w)
          else if is_dir w new then (Some EISDIR, w)
          else (None, put_file new c (drop_file old w)))"

function mkdir_all :: "string \<Rightarrow> memfs \<Rightarrow> errno option \<times> memfs" where
  "mkdir_all p w =
     (if p = [] then (Some ENOENT, w)
      else if is_dir w p then (None, w)
      else if entries w p \<noteq> None then (Some ENOTDIR, w)
      else if length (mem_Dir p) < length p then
        (case mkdir_all (mem_Dir p) w of
           (Some e, w1) \<Rightarrow> (Some e, w1)
         | (None, w1) \<Rightarrow> (None, w1\<lparr>dirs := p # dirs w1\<rparr>))
      else (None, w\<lparr>dirs := p # dirs w\<rparr>))"
  by pat_completeness auto
termination
  by (relation "measure (\<lambda>(p, w). length p)") auto

declare mkdir_all.simps [simp del]

definition mem_copy_file :: "string \<Rightarrow> string \<Rightarrow> memfs \<Rightarrow> error option \<times> memfs" where
  "mem_copy_file s d w =
     (case entries w s of
        None \<Rightarrow> (Some (Errorf ''open %q: %w'' [s] [OsError (missing_errno w s)]), w)
      | Some c \<Rightarrow>
          (case mkdir_all (mem_Dir d) w of
             (Some e, w1) \<Rightarrow>
               (Some (Errorf ''creating directory %q: %w'' [mem_Dir d] [OsError e]), w1)
           | (None, w1) \<Rightarrow>
               if entries w1 d \<noteq> None \<or> is_dir w1 d
               then (Some (Errorf ''create %q: %w'' [d] [OsError EEXIST]), w1)
               else (None, put_file d c w1)))"

definition mem_os :: "memfs os_pkg" where
  "mem_os =
     \<lparr>os_Stat = mem_Stat, os_Remove = mem_Remove, os_Rename = mem_Rename,
      os_MkdirAll = (\<lambda>p perm w. mkdir_all p w), filepath_Dir = mem_Dir,
      copy_file = mem_copy_file\<rparr>"

text \<open>
  An in-memory file system is tree-like when the directory of every file exists.  A world
  \<open>v\<close> extends \<open>w\<close> when it has the same regular files with the same contents and the same
  sealed paths, and at least the directories of \<open>w\<close>.
\<close>

definition tree_like :: "memfs \<Rightarrow> bool" where
  "tree_like w \<longleftrightarrow> list_all (\<lambda>x. is_dir w (mem_Dir (fst x))) (files w)"

definition extends :: "memfs \<Rightarrow> memfs \<Rightarrow> bool" where
  "extends w v \<longleftrightarrow> entries v = entries w \<and> set (dirs w) \<subseteq> set (dirs v) \<and> sealed v = sealed w"

text \<open>
  A world that is an ordered log of the undo primitives invoked on it; a primitive fails
  with \<open>EPERM\<close> on the paths of \<open>F\<close>.
\<close>

datatype os_call = RemoveCall string | RenameCall string string

definition recording_os :: "string set \<Rightarrow> os_call list os_pkg" where
  "recording_os F =
     \<lparr>os_Stat = (\<lambda>p w. Inl ENOENT),
      os_Remove = (\<lambda>p w. (if p \<in> F then Some EPERM else None, w @ [RemoveCall p])),
      os_Rename = (\<lambda>old new w. (if old \<in> F then Some EPERM else None, w @ [RenameCall old new])),
      os_MkdirAll = (\<lambda>p perm w. (None, w)), filepath_Dir = (\<lambda>p. p),
      copy_file = (\<lambda>s d w. (None, w))\<rparr>"

fun undo_call :: "Operation \<Rightarrow> os_call" where
  "undo_call (CopyOperation s d) = RemoveCall d"
| "undo_call (MoveOperation s d) = RenameCall d s"

section \<open>Example inputs\<close>

text \<open>
  Transactions bound to the doubles, small plans and worlds: the concrete inputs at which
  the theorems below are instantiated.
\<close>

definition mem_tx :: "Operation list \<Rightarrow> Operation list \<Rightarrow> bool \<Rightarrow> memfs FileTransaction" where
  "mem_tx ops cs ov = \<lparr>fs = Files mem_os, operations = ops, completed = cs, overwrite = ov\<rparr>"

definition log_tx :: "string set \<Rightarrow> Operation list \<Rightarrow> os_call list FileTransaction" where
  "log_tx F cs = \<lparr>fs = Files (recording_os F), operations = cs, completed = cs, overwrite = False\<rparr>"

definition done_plan :: "Operation list" where
  "done_plan = [CopyOperation ''a'' ''b'', MoveOperation ''c'' ''d'']"

definition sealed_world :: memfs where
  "sealed_world =
     \<lparr>files = [(''a'', ''A''), (''b'', ''A''), (''d'', ''C'')], dirs = [], sealed = {''d''}\<rparr>"

definition world0 :: memfs where
  "world0 = \<lparr>files = [(''a'', ''A''), (''c'', ''C'')], dirs = [], sealed = {}\<rparr>"

definition sealed_b_world :: memfs where
  "sealed_b_world = \<lparr>files = [(''a'', ''A''), (''c'', ''C'')], dirs = [], sealed = {''b''}\<rparr>"

definition bad_op :: Operation where
  "bad_op = CopyOperation ''missing'' ''e''"

definition failing_plan :: "Operation list" where
  "failing_plan = done_plan @ [bad_op]"

definition bad_source :: error where
  "bad_source = Errorf ''source %q is not a regular file'' [''missing''] []"

definition validate_plan :: "Operation list" where
  "validate_plan = [CopyOperation ''a'' ''b'', bad_op, CopyOperation [] ''x'']"

definition world_ab :: memfs where
  "world_ab = \<lparr>files = [(''a'', ''A''), (''b'', ''B'')], dirs = [], sealed = {}\<rparr>"

definition overwrite_plan :: "Operation list" where
  "overwrite_plan = [CopyOperation ''a'' ''b'', CopyOperation [] ''x'', bad_op]"


definition colliding_plan :: "Operation list" where
  "colliding_plan = [MoveOperation ''a'' ''b'', MoveOperation ''c'' ''b'', bad_op]"


section \<open>Progress state: negative inputs\<close>

lemma nonneg_SetTotal: "nonneg p \<Longrightarrow> nonneg (ProgressState_SetTotal n p)"
  by (simp add: nonneg_def ProgressState_SetTotal_def Let_def word_sle_eq word_sless_alt)

lemma nonneg_SetCurrent: "nonneg p \<Longrightarrow> nonneg (ProgressState_SetCurrent c p)"
  by (simp add: nonneg_def ProgressState_SetCurrent_def Let_def word_sle_eq word_sless_alt)

lemma nonneg_IncrementBy: "nonneg p \<Longrightarrow> nonneg (ProgressState_IncrementBy k p)"
  by (simp add: ProgressState_IncrementBy_def Let_def nonneg_SetCurrent)

lemma nonneg_SetMessage: "nonneg p \<Longrightarrow> nonneg (ProgressState_SetMessage m p)"
  by (simp add: nonneg_def ProgressState_SetMessage_def)

lemma nonneg_state_step: "nonneg p \<Longrightarrow> nonneg (state_step p c)"
  by (cases c) (simp_all add: nonneg_SetTotal nonneg_SetCurrent nonneg_IncrementBy
      nonneg_SetMessage ProgressState_Increment_def)

lemma nonneg_state_run: "nonneg p \<Longrightarrow> nonneg (state_run p cs)"
  unfolding state_run_def
  by (induction cs arbitrary: p) (simp_all add: nonneg_state_step)

lemma nonneg_New: "nonneg (NewProgressState wr)"
  by (simp add: nonneg_def NewProgressState_def)

lemma SetCurrent_neg: "c <s 0 \<Longrightarrow> current (ProgressState_SetCurrent c p) = 0"
  by (auto simp: ProgressState_SetCurrent_def Let_def word_sless_alt)

text \<open>
  C10.  \<open>SetTotal\<close> with a negative argument stores 0, \<open>SetCurrent\<close> with a negative
  argument stores 0, \<open>IncrementBy\<close> with a negative amount leaves the state as it is; and
  \<open>0 \<le> current\<close>, \<open>0 \<le> total\<close> is kept by every operation of the progress state, by every
  run of them, and holds after every run from a new state.  The sum in \<open>IncrementBy\<close> may
  wrap around to a negative number: \<open>SetCurrent\<close> then stores 0.
\<close>

theorem progress_state_rejects_negative:
  "(n <s 0 \<longrightarrow> total (ProgressState_SetTotal n p) = 0)
   \<and> (c <s 0 \<longrightarrow> current (ProgressState_SetCurrent c p) = 0)
   \<and> (k <s 0 \<longrightarrow> ProgressState_IncrementBy k p = p)
   \<and> (nonneg p \<longrightarrow> nonneg (state_step p call))
   \<and> (nonneg p \<longrightarrow> nonneg (state_run p cs))
   \<and> nonneg (state_run (NewProgressState wr) cs)"
  by (simp add: ProgressState_SetTotal_def SetCurrent_neg ProgressState_IncrementBy_def
      nonneg_state_step nonneg_state_run nonneg_New)

theorem progress_state_rejects_negative_witness:
  "(- 5 :: go_int) <s 0 \<and> (- 3 :: go_int) <s 0 \<and> (- 2 :: go_int) <s 0
   \<and> nonneg (NewProgressState [])
   \<and> total (ProgressState_SetTotal (- 5) (NewProgressState [])) = 0
   \<and> current (ProgressState_SetCurrent (- 3) (NewProgressState [])) = 0
   \<and> ProgressState_IncrementBy (- 2) (NewProgressState []) = NewProgressState []
   \<and> nonneg (state_step (NewProgressState []) (StIncrementBy 9223372036854775807))
   \<and> nonneg (state_run (NewProgressState []) [StSetCurrent 1, StIncrementBy 9223372036854775807])"
  using progress_state_rejects_negative [of "- 5" "NewProgressState []" "- 3" "- 2"
      "StIncrementBy 9223372036854775807" "[StSetCurrent 1, StIncrementBy 9223372036854775807]" "[]"]
  by (simp add: word_sless_alt nonneg_New)

section \<open>Progress state: current against total\<close>

lemma within_SetCurrent: "within_total (ProgressState_SetCurrent c p)"
  by (simp add: within_total_def ProgressState_SetCurrent_def Let_def word_sle_eq word_sless_alt)

lemma within_IncrementBy: "within_total p \<Longrightarrow> within_total (ProgressState_IncrementBy k p)"
  by (simp add: ProgressState_IncrementBy_def Let_def within_SetCurrent)

lemma within_SetMessage: "within_total p \<Longrightarrow> within_total (ProgressState_SetMessage m p)"
  by (simp add: within_total_def ProgressState_SetMessage_def)

lemma within_state_step: "within_total p \<Longrightarrow> \<not> is_SetTotal c \<Longrightarrow> within_total (state_step p c)"
  by (cases c) (simp_all add: within_SetCurrent within_IncrementBy within_SetMessage
      ProgressState_Increment_def is_SetTotal_def)

lemma within_state_run:
  "within_total p \<Longrightarrow> list_all (\<lambda>c. \<not> is_SetTotal c) cs \<Longrightarrow> within_total (state_run p cs)"
  unfolding state_run_def
  by (induction cs arbitrary: p) (simp_all add: within_state_step)

lemma within_SetTotal_New: "within_total (ProgressState_SetTotal n (NewProgressState wr))"
  by (simp add: within_total_def ProgressState_SetTotal_def NewProgressState_def Let_def
      word_sle_eq word_sless_alt)








section \<open>Progress bar: terminal states\<close>

lemma finished_Finish: "finished (ProgressBar_Finish fl pb)"
  by (simp add: ProgressBar_Finish_def Let_def)

lemma finished_SetError: "finished (ProgressBar_SetError fl e pb)"
  by (simp add: ProgressBar_SetError_def Let_def)

lemma finished_call_noop: "finished pb \<Longrightarrow> call_step (ProgressBar_reporter fl) pb c = pb"
  by (cases c) (simp_all add: ProgressBar_reporter_def ProgressBar_SetTotal_def
      ProgressBar_Increment_def ProgressBar_IncrementBy_def ProgressBar_SetCurrent_def
      ProgressBar_SetMessage_def ProgressBar_Finish_def ProgressBar_SetError_def)

lemma finished_calls_noop: "finished pb \<Longrightarrow> calls_run (ProgressBar_reporter fl) pb cs = pb"
  unfolding calls_run_def
  by (induction cs) (simp_all add: finished_call_noop)

lemma errored_Finish: "errored (ProgressBar_Finish fl pb) = errored pb"
  by (simp add: ProgressBar_Finish_def Let_def)

text \<open>
  C9.  After \<open>Finish\<close>, and after \<open>SetError\<close>, every run of calls through the interface
  (\<open>SetTotal\<close>, \<open>SetCurrent\<close>, \<open>Increment\<close>, \<open>IncrementBy\<close>, \<open>SetMessage\<close>, and
  \<open>Finish\<close> and \<open>SetError\<close> too) leaves the bar as it was, all fields and the writer
  included.  A second \<open>Finish\<close> writes nothing, and \<open>SetError\<close> after \<open>Finish\<close> changes
  nothing: the flag \<open>errored\<close> stays what it was before \<open>Finish\<close>.
\<close>

theorem finished_and_errored_are_terminal:
  "calls_run (ProgressBar_reporter fl) (ProgressBar_Finish fl pb) cs = ProgressBar_Finish fl pb
   \<and> calls_run (ProgressBar_reporter fl) (ProgressBar_SetError fl e pb) cs = ProgressBar_SetError fl e pb
   \<and> ProgressBar_Finish fl (ProgressBar_Finish fl pb) = ProgressBar_Finish fl pb
   \<and> writer (ProgressBar_Finish fl (ProgressBar_Finish fl pb)) = writer (ProgressBar_Finish fl pb)
   \<and> ProgressBar_SetError fl e' (ProgressBar_Finish fl pb) = ProgressBar_Finish fl pb
   \<and> errored (ProgressBar_SetError fl e' (ProgressBar_Finish fl pb)) = errored pb"
  using finished_calls_noop [OF finished_Finish, of fl fl pb cs]
    finished_calls_noop [OF finished_SetError, of fl fl e pb cs]
    finished_call_noop [OF finished_Finish, of fl fl pb CallFinish]
    finished_call_noop [OF finished_Finish, of fl fl pb "CallSetError e'"]
  by (simp add: ProgressBar_reporter_def errored_Finish)

theorem finished_and_errored_are_terminal_witness:
  "calls_run (ProgressBar_reporter (\<lambda>a b c. 1)) (ProgressBar_Finish (\<lambda>a b c. 1) (NewProgressBar [] 3))
     [CallSetTotal 9, CallSetCurrent 2, CallIncrement, CallIncrementBy 3, CallSetMessage ''x'',
      CallSetError (Some ''late''), CallFinish]
     = ProgressBar_Finish (\<lambda>a b c. 1) (NewProgressBar [] 3)
   \<and> \<not> errored (ProgressBar_SetError (\<lambda>a b c. 1) (Some ''late'')
                   (ProgressBar_Finish (\<lambda>a b c. 1) (NewProgressBar [] 3)))
   \<and> length (writer (ProgressBar_Finish (\<lambda>a b c. 1) (NewProgressBar [] 3))) = 1"
  using finished_and_errored_are_terminal [of "\<lambda>a b c. 1" "NewProgressBar [] 3"
      "[CallSetTotal 9, CallSetCurrent 2, CallIncrement, CallIncrementBy 3, CallSetMessage ''x'',
        CallSetError (Some ''late''), CallFinish]" "Some ''late''" "Some ''late''"]
  by (simp add: NewProgressBar_def ProgressBar_Finish_def Fprint_def Let_def word_sle_eq)

section \<open>The loops of the engine against the reference behaviour\<close>

lemma rollback_steps_ops: "map fst (fst (rollback_steps svc os ops w)) = ops"
  by (induction ops arbitrary: w) (simp_all add: split_beta)

lemma rollback_failures_empty:
  "rollback_failures out = [] \<longleftrightarrow> list_all (\<lambda>x. snd x = None) out"
  by (induction out rule: rollback_failures.induct) simp_all

lemma rollback_loop_steps:
  "n \<le> length cs \<Longrightarrow>
   rollback_loop svc os cs n errs w =
     (errs @ rollback_failures (fst (rollback_steps svc os (rev (take n cs)) w)),
      snd (rollback_steps svc os (rev (take n cs)) w))"
proof (induction n arbitrary: errs w)
  case 0
  then show ?case by simp
next
  case (Suc n)
  then have n: "n < length cs" and le: "n \<le> length cs" by simp_all
  have tk: "rev (take (Suc n) cs) = cs ! n # rev (take n cs)"
    using n by (simp add: take_Suc_conv_app_nth)
  show ?case
    by (cases "Operation_Rollback svc os (cs ! n) w")
       (auto simp: tk Suc.IH [OF le] Let_def split: prod.splits option.splits)
qed

lemma Rollback_steps:
  "FileTransaction_Rollback os ft w =
     (rollback_result (rollback_failures (fst (rollback_steps (fs ft) os (rev (completed ft)) w))),
      ft\<lparr>completed := []\<rparr>,
      snd (rollback_steps (fs ft) os (rev (completed ft)) w))"
  by (simp add: FileTransaction_Rollback_def rollback_loop_steps rollback_result_def Let_def)

lemma recording_step:
  "snd (Operation_Rollback svc (recording_os F) op lg) = lg @ [undo_call op]"
  by (cases op)
     (simp_all add: CopyOperation_Rollback_def MoveOperation_Rollback_def recording_os_def)

lemma recording_steps:
  "snd (rollback_steps svc (recording_os F) ops lg) = lg @ map undo_call ops"
  by (induction ops arbitrary: lg) (simp_all add: split_beta recording_step)

lemma calls_run_append: "calls_run rep r (cs @ ds) = calls_run rep (calls_run rep r cs) ds"
  by (simp add: calls_run_def)

lemma calls_run_recorder: "calls_run recorder r cs = r @ cs"
proof (induction cs arbitrary: r)
  case Nil
  then show ?case by (simp add: calls_run_def)
next
  case (Cons c cs)
  have "call_step recorder r c = r @ [c]"
    by (cases c) (simp_all add: recorder_def)
  with Cons show ?case by (simp add: calls_run_def)
qed

lemma execute_loop_success:
  "execute_all (fs ft) os ops w = Some w' \<Longrightarrow>
   execute_loop os rep (of_nat i) ops ft r w =
     (None, ft\<lparr>completed := completed ft @ ops\<rparr>, calls_run rep r (progress_calls i ops), w')"
proof (induction ops arbitrary: i ft r w)
  case Nil
  then show ?case by (simp add: calls_run_def)
next
  case (Cons op ops)
  from Cons.prems obtain w1 where
    ex: "Operation_Execute (fs ft) os op w = (None, w1)"
    and rest: "execute_all (fs ft) os ops w1 = Some w'"
    by (auto split: prod.splits option.splits)
  have i: "(of_nat i :: go_int) + 1 = of_nat (Suc i)" by simp
  show ?case
    using Cons.IH [of "ft\<lparr>completed := completed ft @ [op]\<rparr>" w1 "Suc i"] rest ex
    by (simp add: i calls_run_def op_message_def Let_def del: of_nat_Suc)
qed

lemma execute_loop_failure:
  "execute_all (fs ft) os pre w = Some wk \<Longrightarrow>
   Operation_Execute (fs ft) os op wk = (Some err, w_f) \<Longrightarrow>
   execute_loop os rep (of_nat i) (pre @ op # rest) ft r w =
     (Some (execution_error op err
              (fst (FileTransaction_Rollback os (ft\<lparr>completed := completed ft @ pre\<rparr>) w_f))),
      ft\<lparr>completed := []\<rparr>,
      calls_run rep r (progress_calls i pre @ [CallSetMessage (op_message op)]),
      snd (snd (FileTransaction_Rollback os (ft\<lparr>completed := completed ft @ pre\<rparr>) w_f)))"
proof (induction pre arbitrary: i ft r w)
  case Nil
  then show ?case
    by (auto simp: Let_def calls_run_def op_message_def execution_error_def Rollback_steps
        split: option.splits)
next
  case (Cons p pre)
  from Cons.prems obtain w1 where
    ex: "Operation_Execute (fs ft) os p w = (None, w1)"
    and rest: "execute_all (fs ft) os pre w1 = Some wk"
    by (auto split: prod.splits option.splits)
  have i: "(of_nat i :: go_int) + 1 = of_nat (Suc i)" by simp
  show ?case
    using Cons.IH [of "ft\<lparr>completed := completed ft @ [p]\<rparr>" w1 "Suc i"] rest ex Cons.prems(2)
    by (simp add: i calls_run_def op_message_def Let_def del: of_nat_Suc)
qed

section \<open>Rollback\<close>

text \<open>
  C2.  \<open>Rollback\<close> invokes the rollback of every completed operation, last completed
  first, whatever the earlier steps returned: its outcomes are those of \<open>rollback_steps\<close>
  on the reversed list, one per completed operation.  It leaves \<open>completed\<close> empty in
  every case, and returns the rollback-phase error carrying the collected failures exactly
  when some step failed.  On the recording world the log after \<open>Rollback\<close> holds one undo
  call per completed operation, in reverse completion order, also when every step fails.
\<close>

theorem rollback_reverse_order_collects_failures:
  "FileTransaction_Rollback os ft w =
     (rollback_result (rollback_failures (fst (rollback_steps (fs ft) os (rev (completed ft)) w))),
      ft\<lparr>completed := []\<rparr>,
      snd (rollback_steps (fs ft) os (rev (completed ft)) w))
   \<and> map fst (fst (rollback_steps (fs ft) os (rev (completed ft)) w)) = rev (completed ft)
   \<and> (fst (FileTransaction_Rollback os ft w) = None
        \<longleftrightarrow> list_all (\<lambda>x. snd x = None) (fst (rollback_steps (fs ft) os (rev (completed ft)) w)))
   \<and> snd (snd (FileTransaction_Rollback (recording_os F) lt lg))
        = lg @ map undo_call (rev (completed lt))"
  by (auto simp: Rollback_steps rollback_steps_ops rollback_result_def rollback_failures_empty
      recording_steps)

theorem rollback_reverse_order_collects_failures_witness:
  "fst (FileTransaction_Rollback mem_os (mem_tx done_plan done_plan False) sealed_world)
     = Some (TransactionError ''rollback'' None
         (Errorf ''rollback errors: %v'' []
            [Errorf ''failed to rollback %s %s->%s: %w'' [''move'', ''c'', ''d'']
               [Errorf ''failed to restore moved file %q to %q: %w'' [''d'', ''c''] [OsError EPERM]]]))
   \<and> completed (fst (snd (FileTransaction_Rollback mem_os (mem_tx done_plan done_plan False) sealed_world))) = []
   \<and> entries (snd (snd (FileTransaction_Rollback mem_os (mem_tx done_plan done_plan False) sealed_world))) ''b'' = None
   \<and> entries (snd (snd (FileTransaction_Rollback mem_os (mem_tx done_plan done_plan False) sealed_world))) ''d'' = Some ''C''
   \<and> \<not> list_all (\<lambda>x. snd x = None)
         (fst (rollback_steps (Files mem_os) mem_os (rev done_plan) sealed_world))
   \<and> snd (snd (FileTransaction_Rollback (recording_os {''d''}) (log_tx {''d''} done_plan) []))
       = [RenameCall ''d'' ''c'', RemoveCall ''b'']"
proof -
  note t = rollback_reverse_order_collects_failures [of mem_os "mem_tx done_plan done_plan False"
      sealed_world "{''d''}" "log_tx {''d''} done_plan" "[]"]
  have r: "fst (FileTransaction_Rollback mem_os (mem_tx done_plan done_plan False) sealed_world)
     = Some (TransactionError ''rollback'' None
         (Errorf ''rollback errors: %v'' []
            [Errorf ''failed to rollback %s %s->%s: %w'' [''move'', ''c'', ''d'']
               [Errorf ''failed to restore moved file %q to %q: %w'' [''d'', ''c''] [OsError EPERM]]]))"
    by code_simp
  have c: "completed (fst (snd (FileTransaction_Rollback mem_os (mem_tx done_plan done_plan False) sealed_world))) = []"
    by code_simp
  have b: "entries (snd (snd (FileTransaction_Rollback mem_os (mem_tx done_plan done_plan False) sealed_world))) ''b'' = None"
    by code_simp
  have d: "entries (snd (snd (FileTransaction_Rollback mem_os (mem_tx done_plan done_plan False) sealed_world))) ''d'' = Some ''C''"
    by code_simp
  have fsv: "fs (mem_tx done_plan done_plan False) = Files mem_os"
    and cs: "completed (mem_tx done_plan done_plan False) = done_plan"
    and lcs: "completed (log_tx {''d''} done_plan) = done_plan"
    by (simp_all add: mem_tx_def log_tx_def)
  from t have n0: "(fst (FileTransaction_Rollback mem_os (mem_tx done_plan done_plan False) sealed_world) = None)
      = list_all (\<lambda>x. snd x = None)
         (fst (rollback_steps (fs (mem_tx done_plan done_plan False)) mem_os
            (rev (completed (mem_tx done_plan done_plan False))) sealed_world))"
    by blast
  from n0 r have n: "\<not> list_all (\<lambda>x. snd x = None)
         (fst (rollback_steps (Files mem_os) mem_os (rev done_plan) sealed_world))"
    unfolding fsv cs by simp
  from t have l0: "snd (snd (FileTransaction_Rollback (recording_os {''d''}) (log_tx {''d''} done_plan) []))
       = [] @ map undo_call (rev (completed (log_tx {''d''} done_plan)))"
    by blast
  have l: "snd (snd (FileTransaction_Rollback (recording_os {''d''}) (log_tx {''d''} done_plan) []))
       = [RenameCall ''d'' ''c'', RemoveCall ''b'']"
    unfolding l0 lcs by (simp add: done_plan_def)
  from r c b d n l show ?thesis by blast
qed

section \<open>ExecuteWithProgress\<close>

lemma ExecuteWithProgress_success:
  assumes "execute_all (fs ft) os (operations ft) w = Some w'"
  shows "FileTransaction_ExecuteWithProgress os rep ft r w =
           (None, ft\<lparr>completed := operations ft\<rparr>,
            calls_run rep r (success_calls (operations ft)), w')"
proof -
  let ?ft0 = "ft\<lparr>completed := []\<rparr>"
  let ?r0 = "SetCurrent rep 0 (SetTotal rep (of_nat (length (operations ft))) r)"
  have "execute_all (fs ?ft0) os (operations ft) w = Some w'"
    using assms by simp
  from execute_loop_success [OF this, of rep 0 ?r0]
  have "execute_loop os rep 0 (operations ft) ?ft0 ?r0 w =
          (None, ft\<lparr>completed := operations ft\<rparr>,
           calls_run rep ?r0 (progress_calls 0 (operations ft)), w')"
    by simp
  then show ?thesis
    by (simp add: FileTransaction_ExecuteWithProgress_def success_calls_def start_calls_def
        calls_run_def Let_def)
qed

lemma ExecuteWithProgress_failure:
  assumes ops: "operations ft = pre @ op # rest"
    and pre: "execute_all (fs ft) os pre w = Some wk"
    and op: "Operation_Execute (fs ft) os op wk = (Some err, w_f)"
  shows "FileTransaction_ExecuteWithProgress os rep ft r w =
           (Some (execution_error op err
                    (rollback_result (rollback_failures
                       (fst (rollback_steps (fs ft) os (rev pre) w_f))))),
            ft\<lparr>completed := []\<rparr>,
            calls_run rep r (failure_calls pre op rest),
            snd (rollback_steps (fs ft) os (rev pre) w_f))"
proof -
  let ?ft0 = "ft\<lparr>completed := []\<rparr>"
  let ?r0 = "SetCurrent rep 0 (SetTotal rep (of_nat (length (operations ft))) r)"
  have p: "execute_all (fs ?ft0) os pre w = Some wk"
    and e: "Operation_Execute (fs ?ft0) os op wk = (Some err, w_f)"
    using pre op by simp_all
  from execute_loop_failure [OF p e, of rep 0 rest ?r0]
  have "execute_loop os rep 0 (pre @ op # rest) ?ft0 ?r0 w =
          (Some (execution_error op err
                   (rollback_result (rollback_failures
                      (fst (rollback_steps (fs ft) os (rev pre) w_f))))),
           ft\<lparr>completed := []\<rparr>,
           calls_run rep ?r0 (progress_calls 0 pre @ [CallSetMessage (op_message op)]),
           snd (rollback_steps (fs ft) os (rev pre) w_f))"
    by (simp add: Rollback_steps)
  then show ?thesis
    by (simp add: FileTransaction_ExecuteWithProgress_def failure_calls_def start_calls_def
        calls_run_def Let_def ops)
qed

lemma SetCurrent_values_progress:
  "SetCurrent_values (progress_calls i ops @ cs) = map of_nat [Suc i..<Suc (i + length ops)] @ SetCurrent_values cs"
proof (induction ops arbitrary: i)
  case Nil
  then show ?case by simp
next
  case (Cons op ops)
  have "[Suc i..<Suc (i + length (op # ops))] = Suc i # [Suc (Suc i)..<Suc (Suc i + length ops)]"
    by (simp add: upt_rec)
  then show ?case using Cons.IH [of "Suc i"] by (simp del: upt_Suc of_nat_Suc)
qed

lemma SetCurrent_values_success:
  "SetCurrent_values (success_calls ops) = map of_nat [0..<Suc (length ops)]"
proof -
  have "[0..<Suc (length ops)] = 0 # [Suc 0..<Suc (0 + length ops)]"
    by (simp add: upt_rec)
  then show ?thesis
    using SetCurrent_values_progress [of 0 ops "[CallFinish]"]
    by (simp add: success_calls_def start_calls_def del: upt_Suc of_nat_Suc)
qed

lemma sint_of_nat_small: "n < 2 ^ 63 \<Longrightarrow> sint (of_nat n :: go_int) = int n"
  by (simp add: sint_uint signed_take_bit_int_eq_self_iff uint_nat unat_of_nat take_bit_nat_eq_self)

lemma sorted_small_naturals:
  assumes "n < 2 ^ 63"
  shows "sorted_wrt (<s) (map of_nat [0..<Suc n] :: go_int list)"
proof -
  have "(of_nat i :: go_int) <s of_nat j" if "i < j" "j < Suc n" for i j
  proof -
    from that assms have "i < 2 ^ 63" "j < 2 ^ 63" by simp_all
    then show ?thesis using that(1) by (simp add: word_sless_alt sint_of_nat_small)
  qed
  then show ?thesis
    by (simp add: sorted_wrt_iff_nth_less del: upt_Suc of_nat_Suc)
qed

lemma Finish_not_in_progress_calls: "count_list (progress_calls i ops) CallFinish = 0"
  by (induction ops arbitrary: i) simp_all

lemma no_terminal_in_progress_calls: "\<not> list_ex is_terminal_call (progress_calls i ops)"
  by (induction ops arbitrary: i) (simp_all add: is_terminal_call_def)

lemma count_Finish_success: "count_list (success_calls ops) CallFinish = 1"
  by (simp add: success_calls_def start_calls_def Finish_not_in_progress_calls)

lemma no_terminal_failure_calls: "\<not> list_ex is_terminal_call (failure_calls pre op rest)"
  by (simp add: failure_calls_def start_calls_def no_terminal_in_progress_calls is_terminal_call_def)


text \<open>
  C7.  When every operation of the plan executes successfully, \<open>ExecuteWithProgress\<close>
  returns success and the reporter has received, in this order: \<open>SetTotal(N)\<close>,
  \<open>SetCurrent(0)\<close>, then for each operation its message and \<open>SetCurrent(i + 1)\<close>, and last
  \<open>Finish\<close>.  The values given to \<open>SetCurrent\<close> are 0, 1, ..., N, strictly increasing
  (a Go slice has fewer than \<open>2 ^ 63\<close> elements); \<open>Finish\<close> occurs once, as the last call.
  With no operation the calls are \<open>SetTotal(0)\<close>, \<open>SetCurrent(0)\<close>, \<open>Finish\<close>, and the
  result is success.
\<close>

theorem progress_calls_on_success:
  assumes "execute_all (fs ft) os (operations ft) w = Some w'"
  shows "FileTransaction_ExecuteWithProgress os rep ft r w =
           (None, ft\<lparr>completed := operations ft\<rparr>,
            calls_run rep r (success_calls (operations ft)), w')
   \<and> fst (snd (snd (FileTransaction_ExecuteWithProgress os recorder ft [] w)))
       = success_calls (operations ft)
   \<and> success_calls (operations ft) =
       CallSetTotal (of_nat (length (operations ft))) # CallSetCurrent 0
       # progress_calls 0 (operations ft) @ [CallFinish]
   \<and> SetCurrent_values (success_calls (operations ft))
       = map of_nat [0..<Suc (length (operations ft))]
   \<and> (length (operations ft) < 2 ^ 63 \<longrightarrow>
        sorted_wrt (<s) (SetCurrent_values (success_calls (operations ft))))
   \<and> count_list (success_calls (operations ft)) CallFinish = 1
   \<and> last (success_calls (operations ft)) = CallFinish
   \<and> (operations ft = [] \<longrightarrow>
        FileTransaction_ExecuteWithProgress os rep ft r w =
          (None, ft\<lparr>completed := []\<rparr>, Finish rep (SetCurrent rep 0 (SetTotal rep 0 r)), w))"
proof -
  note s = ExecuteWithProgress_success [OF assms]
  have e: "operations ft = [] \<Longrightarrow>
        FileTransaction_ExecuteWithProgress os rep ft r w =
          (None, ft\<lparr>completed := []\<rparr>, Finish rep (SetCurrent rep 0 (SetTotal rep 0 r)), w)"
    by (simp add: FileTransaction_ExecuteWithProgress_def Let_def)
  show ?thesis
    using s [of rep r] s [of recorder "[]"] e
    by (simp add: calls_run_recorder SetCurrent_values_success sorted_small_naturals
        count_Finish_success del: upt_Suc of_nat_Suc)
       (simp add: success_calls_def start_calls_def)
qed

theorem progress_calls_on_success_witness:
  "execute_all (Files mem_os) mem_os done_plan world0 \<noteq> None
   \<and> fst (FileTransaction_ExecuteWithProgress mem_os recorder (mem_tx done_plan [] False) [] world0) = None
   \<and> fst (snd (snd (FileTransaction_ExecuteWithProgress mem_os recorder (mem_tx done_plan [] False) [] world0)))
       = [CallSetTotal 2, CallSetCurrent 0, CallSetMessage ''copy a'', CallSetCurrent 1,
          CallSetMessage ''move c'', CallSetCurrent 2, CallFinish]
   \<and> SetCurrent_values (success_calls done_plan) = [0, 1, 2]
   \<and> sorted_wrt (<s) (SetCurrent_values (success_calls done_plan))"
proof -
  have h: "execute_all (Files mem_os) mem_os done_plan world0 \<noteq> None"
    by code_simp
  have fsv: "fs (mem_tx done_plan [] False) = Files mem_os"
    and ops: "operations (mem_tx done_plan [] False) = done_plan"
    by (simp_all add: mem_tx_def)
  from h have hyp: "execute_all (fs (mem_tx done_plan [] False)) mem_os
      (operations (mem_tx done_plan [] False)) world0
      = Some (the (execute_all (Files mem_os) mem_os done_plan world0))"
    unfolding fsv ops by auto
  note t = progress_calls_on_success [OF hyp, of recorder "[]"]
  have len: "length done_plan < 2 ^ 63" by (simp add: done_plan_def)
  have sc: "success_calls done_plan
       = [CallSetTotal 2, CallSetCurrent 0, CallSetMessage ''copy a'', CallSetCurrent 1,
          CallSetMessage ''move c'', CallSetCurrent 2, CallFinish]"
    by code_simp
  from t have a: "fst (FileTransaction_ExecuteWithProgress mem_os recorder (mem_tx done_plan [] False) [] world0) = None"
    by simp
  from t have b: "fst (snd (snd (FileTransaction_ExecuteWithProgress mem_os recorder (mem_tx done_plan [] False) [] world0)))
       = success_calls done_plan"
    unfolding ops by blast
  from t len have c: "sorted_wrt (<s) (SetCurrent_values (success_calls done_plan))"
    unfolding ops by blast
  have d: "SetCurrent_values (success_calls done_plan) = [0, 1, 2]"
    unfolding sc by simp
  from h a b c d sc show ?thesis by simp
qed

section \<open>Failure during execution\<close>

lemma example_prefix_runs: "execute_all (Files mem_os) mem_os done_plan world0 \<noteq> None"
  by code_simp

lemma example_prefix_runs_sealed: "execute_all (Files mem_os) mem_os done_plan sealed_b_world \<noteq> None"
  by code_simp

lemma example_bad_op_fails:
  "fst (Operation_Execute (Files mem_os) mem_os bad_op
         (the (execute_all (Files mem_os) mem_os done_plan world0))) = Some bad_source"
  by code_simp

lemma example_bad_op_fails_sealed:
  "fst (Operation_Execute (Files mem_os) mem_os bad_op
         (the (execute_all (Files mem_os) mem_os done_plan sealed_b_world))) = Some bad_source"
  by code_simp

lemma example_tx [simp]:
  "fs (mem_tx ops cs ov) = Files mem_os" "operations (mem_tx ops cs ov) = ops"
  "completed (mem_tx ops cs ov) = cs"
  by (simp_all add: mem_tx_def)

lemma failing_plan_split: "failing_plan = done_plan @ bad_op # []"
  by (simp add: failing_plan_def)

text \<open>
  C3.  When the operations before \<open>op\<close> execute successfully and \<open>op\<close> fails with
  \<open>err\<close>, \<open>ExecuteWithProgress\<close> invokes \<open>Rollback\<close> in the world the failing operation
  left, on the operations completed so far.  It returns the execution-phase error naming
  \<open>op\<close>: with \<open>err\<close> itself when the rollback returned no error, with the error combining
  \<open>err\<close> and the rollback error otherwise.  The calls that reached the reporter are
  \<open>SetTotal\<close>, \<open>SetCurrent\<close> and \<open>SetMessage\<close> only: neither \<open>Finish\<close> nor \<open>SetError\<close>.
\<close>

theorem execution_failure_rolls_back_and_reports:
  assumes "operations ft = pre @ op # rest"
    and "execute_all (fs ft) os pre w = Some wk"
    and "Operation_Execute (fs ft) os op wk = (Some err, w_f)"
  shows "case FileTransaction_Rollback os (ft\<lparr>completed := pre\<rparr>) w_f of
           (rb, ft1, w2) \<Rightarrow>
             FileTransaction_ExecuteWithProgress os rep ft r w =
               (Some (execution_error op err rb), ft1,
                calls_run rep r (failure_calls pre op rest), w2)
             \<and> (rb = None \<longrightarrow>
                  execution_error op err rb = TransactionError ''execution'' (Some op) err)
             \<and> (\<forall>rollbackErr. rb = Some rollbackErr \<longrightarrow>
                  execution_error op err rb =
                    TransactionError ''execution'' (Some op)
                      (Errorf ''execution failed: %v; rollback also failed: %v'' []
                         [err, rollbackErr]))
             \<and> fst (snd (snd (FileTransaction_ExecuteWithProgress os recorder ft [] w)))
                 = failure_calls pre op rest
             \<and> \<not> list_ex is_terminal_call (failure_calls pre op rest)"
  using ExecuteWithProgress_failure [OF assms, of rep r]
    ExecuteWithProgress_failure [OF assms, of recorder "[]"]
  by (simp add: Rollback_steps execution_error_def calls_run_recorder no_terminal_failure_calls)

theorem execution_failure_rolls_back_and_reports_witness:
  "execute_all (Files mem_os) mem_os done_plan world0 \<noteq> None
   \<and> fst (Operation_Execute (Files mem_os) mem_os bad_op
            (the (execute_all (Files mem_os) mem_os done_plan world0))) = Some bad_source
   \<and> fst (FileTransaction_ExecuteWithProgress mem_os recorder (mem_tx failing_plan [] False) [] world0)
       = Some (TransactionError ''execution'' (Some bad_op) bad_source)
   \<and> fst (snd (snd (FileTransaction_ExecuteWithProgress mem_os recorder (mem_tx failing_plan [] False) [] world0)))
       = [CallSetTotal 3, CallSetCurrent 0, CallSetMessage ''copy a'', CallSetCurrent 1,
          CallSetMessage ''move c'', CallSetCurrent 2, CallSetMessage ''copy missing'']
   \<and> fst (FileTransaction_ExecuteWithProgress mem_os recorder (mem_tx failing_plan [] False) [] sealed_b_world)
       = Some (TransactionError ''execution'' (Some bad_op)
           (Errorf ''execution failed: %v; rollback also failed: %v'' []
              [bad_source,
               TransactionError ''rollback'' None
                 (Errorf ''rollback errors: %v'' []
                    [Errorf ''failed to rollback %s %s->%s: %w'' [''copy'', ''a'', ''b'']
                       [Errorf ''failed to remove copied file %q: %w'' [''b''] [OsError EPERM]]])]))"
proof -
  let ?wk = "the (execute_all (Files mem_os) mem_os done_plan world0)"
  let ?wf = "snd (Operation_Execute (Files mem_os) mem_os bad_op ?wk)"
  let ?ft = "mem_tx failing_plan [] False"
  have h1: "operations ?ft = done_plan @ bad_op # []"
    by (simp add: failing_plan_split)
  have h2: "execute_all (fs ?ft) mem_os done_plan world0 = Some ?wk"
    using example_prefix_runs by auto
  have h3: "Operation_Execute (fs ?ft) mem_os bad_op ?wk = (Some bad_source, ?wf)"
    using example_bad_op_fails by (simp add: prod_eq_iff)
  note t = execution_failure_rolls_back_and_reports [OF h1 h2 h3, of recorder "[]", unfolded split_beta]
  have rb: "fst (FileTransaction_Rollback mem_os (?ft\<lparr>completed := done_plan\<rparr>) ?wf) = None"
    by code_simp
  from t rb have a: "fst (FileTransaction_ExecuteWithProgress mem_os recorder ?ft [] world0)
       = Some (TransactionError ''execution'' (Some bad_op) bad_source)"
    by simp
  have fc: "failure_calls done_plan bad_op []
       = [CallSetTotal 3, CallSetCurrent 0, CallSetMessage ''copy a'', CallSetCurrent 1,
          CallSetMessage ''move c'', CallSetCurrent 2, CallSetMessage ''copy missing'']"
    by code_simp
  from t have b: "fst (snd (snd (FileTransaction_ExecuteWithProgress mem_os recorder ?ft [] world0)))
       = failure_calls done_plan bad_op []"
    by blast
  let ?wk' = "the (execute_all (Files mem_os) mem_os done_plan sealed_b_world)"
  let ?wf' = "snd (Operation_Execute (Files mem_os) mem_os bad_op ?wk')"
  have h2': "execute_all (fs ?ft) mem_os done_plan sealed_b_world = Some ?wk'"
    using example_prefix_runs_sealed by auto
  have h3': "Operation_Execute (fs ?ft) mem_os bad_op ?wk' = (Some bad_source, ?wf')"
    using example_bad_op_fails_sealed by (simp add: prod_eq_iff)
  note t' = execution_failure_rolls_back_and_reports [OF h1 h2' h3', of recorder "[]", unfolded split_beta]
  have rb': "fst (FileTransaction_Rollback mem_os (?ft\<lparr>completed := done_plan\<rparr>) ?wf')
      = Some (TransactionError ''rollback'' None
                 (Errorf ''rollback errors: %v'' []
                    [Errorf ''failed to rollback %s %s->%s: %w'' [''copy'', ''a'', ''b'']
                       [Errorf ''failed to remove copied file %q: %w'' [''b''] [OsError EPERM]]]))"
    by code_simp
  from t' rb' have c: "fst (FileTransaction_ExecuteWithProgress mem_os recorder ?ft [] sealed_b_world)
       = Some (TransactionError ''execution'' (Some bad_op)
           (Errorf ''execution failed: %v; rollback also failed: %v'' []
              [bad_source,
               TransactionError ''rollback'' None
                 (Errorf ''rollback errors: %v'' []
                    [Errorf ''failed to rollback %s %s->%s: %w'' [''copy'', ''a'', ''b'']
                       [Errorf ''failed to remove copied file %q: %w'' [''b''] [OsError EPERM]]])]))"
    by simp
  from example_prefix_runs example_bad_op_fails a b fc c show ?thesis by simp
qed

section \<open>All or nothing\<close>


section \<open>Validate\<close>

lemma validate_loop_first_failure:
  "list_all (\<lambda>x. validate_op svc ov x w = None) pre \<Longrightarrow>
   validate_op svc ov op w = Some e \<Longrightarrow>
   validate_loop svc ov (pre @ op # rest) w = Some e"
  by (induction pre) simp_all

lemma validate_loop_None:
  "validate_loop svc ov ops w = None \<longleftrightarrow> list_all (\<lambda>x. validate_op svc ov x w = None) ops"
  by (induction ops) (auto split: option.splits)

lemma validate_op_error:
  "validate_op svc ov op w = Some e \<Longrightarrow>
   Phase e = ''planning'' \<and> Operation e = Some op
   \<and> (\<not> ov \<longrightarrow> ValidateCopyArgs svc (Source op) (Destination op) w = Some (Err e))
   \<and> (ov \<longrightarrow> Err e =
         (if Source op = [] \<or> Destination op = []
          then Errorf ''source and destination must be provided'' [] []
          else Errorf ''source %q is not a regular file'' [Source op] []))"
  by (auto simp: validate_op_def split: if_splits option.splits)

lemma validate_op_strict:
  "validate_op svc False x w =
     (case ValidateCopyArgs svc (Source x) (Destination x) w of
        None \<Rightarrow> None
      | Some err \<Rightarrow> Some (TransactionError ''planning'' (Some x) err))"
  by (simp add: validate_op_def split: option.splits)

lemma validate_op_relaxed:
  "validate_op svc True x w =
     (if Source x = [] \<or> Destination x = []
      then Some (TransactionError ''planning'' (Some x)
                   (Errorf ''source and destination must be provided'' [] []))
      else if \<not> IsFile svc (Source x) w
      then Some (TransactionError ''planning'' (Some x)
                   (Errorf ''source %q is not a regular file'' [Source x] []))
      else None)"
  by (simp add: validate_op_def)

lemma strict_passes:
  "list_all (\<lambda>x. validate_op svc False x w = None) xs
   \<longleftrightarrow> list_all (\<lambda>x. ValidateCopyArgs svc (Source x) (Destination x) w = None) xs"
  by (induction xs) (auto simp: validate_op_strict split: option.splits)

lemma relaxed_passes:
  "list_all (\<lambda>x. validate_op svc True x w = None) xs
   \<longleftrightarrow> list_all (\<lambda>x. Source x \<noteq> [] \<and> Destination x \<noteq> [] \<and> IsFile svc (Source x) w) xs"
  by (induction xs) (auto simp: validate_op_relaxed)

text \<open>
  C4.  \<open>Validate\<close> checks the planned operations in insertion order and stops at the first
  one that fails.  With overwrite disabled: when the collaborator's \<open>ValidateCopyArgs\<close>
  accepts the operations before \<open>op\<close> and rejects \<open>op\<close> with \<open>err\<close>, the result is the
  planning-phase \<open>TransactionError\<close> naming \<open>op\<close> and carrying \<open>err\<close>, whatever follows
  \<open>op\<close> in the plan.  With overwrite enabled: when the operations before \<open>op\<close> have
  non-empty paths and a source that \<open>IsFile\<close> accepts, the result names \<open>op\<close> with the
  error for empty paths if one of its paths is empty, and with the error for a source that
  is not a regular file otherwise.  \<open>Validate\<close> succeeds exactly when every operation
  passes.  It leaves the transaction as it was, \<open>completed\<close> included; the collaborator
  methods it calls, \<open>ValidateCopyArgs\<close> and \<open>IsFile\<close>, only inspect the world.
\<close>

theorem validate_fail_fast_read_only:
  "snd (FileTransaction_Validate ft w) = ft
   \<and> (operations ft = pre @ op # rest \<and> \<not> overwrite ft
       \<and> list_all (\<lambda>x. ValidateCopyArgs (fs ft) (Source x) (Destination x) w = None) pre
       \<and> ValidateCopyArgs (fs ft) (Source op) (Destination op) w = Some err \<longrightarrow>
         FileTransaction_Validate ft w = (Some (TransactionError ''planning'' (Some op) err), ft))
   \<and> (operations ft = pre @ op # rest \<and> overwrite ft
       \<and> list_all (\<lambda>x. Source x \<noteq> [] \<and> Destination x \<noteq> [] \<and> IsFile (fs ft) (Source x) w) pre
       \<and> (Source op = [] \<or> Destination op = []) \<longrightarrow>
         FileTransaction_Validate ft w =
           (Some (TransactionError ''planning'' (Some op)
                    (Errorf ''source and destination must be provided'' [] [])), ft))
   \<and> (operations ft = pre @ op # rest \<and> overwrite ft
       \<and> list_all (\<lambda>x. Source x \<noteq> [] \<and> Destination x \<noteq> [] \<and> IsFile (fs ft) (Source x) w) pre
       \<and> Source op \<noteq> [] \<and> Destination op \<noteq> [] \<and> \<not> IsFile (fs ft) (Source op) w \<longrightarrow>
         FileTransaction_Validate ft w =
           (Some (TransactionError ''planning'' (Some op)
                    (Errorf ''source %q is not a regular file'' [Source op] [])), ft))
   \<and> (\<not> overwrite ft \<longrightarrow>
        (fst (FileTransaction_Validate ft w) = None
         \<longleftrightarrow> list_all (\<lambda>x. ValidateCopyArgs (fs ft) (Source x) (Destination x) w = None)
               (operations ft)))
   \<and> (overwrite ft \<longrightarrow>
        (fst (FileTransaction_Validate ft w) = None
         \<longleftrightarrow> list_all (\<lambda>x. Source x \<noteq> [] \<and> Destination x \<noteq> [] \<and> IsFile (fs ft) (Source x) w)
               (operations ft)))"
proof -
  have a: "FileTransaction_Validate ft w = (Some (TransactionError ''planning'' (Some op) err), ft)"
    if "operations ft = pre @ op # rest" "\<not> overwrite ft"
      "list_all (\<lambda>x. ValidateCopyArgs (fs ft) (Source x) (Destination x) w = None) pre"
      "ValidateCopyArgs (fs ft) (Source op) (Destination op) w = Some err"
  proof -
    have p: "list_all (\<lambda>x. validate_op (fs ft) False x w = None) pre"
      using that(3) by (simp only: strict_passes)
    have q: "validate_op (fs ft) False op w = Some (TransactionError ''planning'' (Some op) err)"
      using that(4) by (simp add: validate_op_strict)
    from validate_loop_first_failure [OF p q, of rest] that(1,2) show ?thesis
      by (simp add: FileTransaction_Validate_def)
  qed
  have b: "FileTransaction_Validate ft w =
           (Some (TransactionError ''planning'' (Some op)
                    (Errorf ''source and destination must be provided'' [] [])), ft)"
    if "operations ft = pre @ op # rest" "overwrite ft"
      "list_all (\<lambda>x. Source x \<noteq> [] \<and> Destination x \<noteq> [] \<and> IsFile (fs ft) (Source x) w) pre"
      "Source op = [] \<or> Destination op = []"
  proof -
    have p: "list_all (\<lambda>x. validate_op (fs ft) True x w = None) pre"
      using that(3) by (simp only: relaxed_passes)
    have q: "validate_op (fs ft) True op w =
        Some (TransactionError ''planning'' (Some op)
                (Errorf ''source and destination must be provided'' [] []))"
      using that(4) by (auto simp: validate_op_relaxed)
    from validate_loop_first_failure [OF p q, of rest] that(1,2) show ?thesis
      by (simp add: FileTransaction_Validate_def)
  qed
  have c: "FileTransaction_Validate ft w =
           (Some (TransactionError ''planning'' (Some op)
                    (Errorf ''source %q is not a regular file'' [Source op] [])), ft)"
    if "operations ft = pre @ op # rest" "overwrite ft"
      "list_all (\<lambda>x. Source x \<noteq> [] \<and> Destination x \<noteq> [] \<and> IsFile (fs ft) (Source x) w) pre"
      "Source op \<noteq> []" "Destination op \<noteq> []" "\<not> IsFile (fs ft) (Source op) w"
  proof -
    have p: "list_all (\<lambda>x. validate_op (fs ft) True x w = None) pre"
      using that(3) by (simp only: relaxed_passes)
    have q: "validate_op (fs ft) True op w =
        Some (TransactionError ''planning'' (Some op)
                (Errorf ''source %q is not a regular file'' [Source op] []))"
      using that(4,5,6) by (simp add: validate_op_relaxed)
    from validate_loop_first_failure [OF p q, of rest] that(1,2) show ?thesis
      by (simp add: FileTransaction_Validate_def)
  qed
  have d: "fst (FileTransaction_Validate ft w) = None
         \<longleftrightarrow> list_all (\<lambda>x. ValidateCopyArgs (fs ft) (Source x) (Destination x) w = None)
               (operations ft)"
    if "\<not> overwrite ft"
    using that strict_passes [of "fs ft" w "operations ft"]
    by (simp add: FileTransaction_Validate_def validate_loop_None)
  have e: "fst (FileTransaction_Validate ft w) = None
         \<longleftrightarrow> list_all (\<lambda>x. Source x \<noteq> [] \<and> Destination x \<noteq> [] \<and> IsFile (fs ft) (Source x) w)
               (operations ft)"
    if "overwrite ft"
    using that relaxed_passes [of "fs ft" w "operations ft"]
    by (simp add: FileTransaction_Validate_def validate_loop_None)
  have f: "snd (FileTransaction_Validate ft w) = ft"
    by (simp add: FileTransaction_Validate_def)
  from a b c d e f show ?thesis by blast
qed

theorem validate_fail_fast_read_only_witness:
  "list_all (\<lambda>x. ValidateCopyArgs (Files mem_os) (Source x) (Destination x) world0 = None)
     [CopyOperation ''a'' ''b'']
   \<and> ValidateCopyArgs (Files mem_os) (Source bad_op) (Destination bad_op) world0 = Some bad_source
   \<and> ValidateCopyArgs (Files mem_os) [] ''x'' world0 \<noteq> None
   \<and> FileTransaction_Validate (mem_tx validate_plan done_plan False) world0
       = (Some (TransactionError ''planning'' (Some bad_op) bad_source),
          mem_tx validate_plan done_plan False)
   \<and> list_all (\<lambda>x. Source x \<noteq> [] \<and> Destination x \<noteq> [] \<and> IsFile (Files mem_os) (Source x) world0)
        [CopyOperation ''a'' ''b'']
   \<and> \<not> IsFile (Files mem_os) (Source bad_op) world0
   \<and> FileTransaction_Validate (mem_tx overwrite_plan done_plan True) world0
       = (Some (TransactionError ''planning'' (Some (CopyOperation [] ''x''))
                  (Errorf ''source and destination must be provided'' [] [])),
          mem_tx overwrite_plan done_plan True)
   \<and> FileTransaction_Validate (mem_tx [CopyOperation ''a'' ''b'', bad_op] done_plan True) world0
       = (Some (TransactionError ''planning'' (Some bad_op)
                  (Errorf ''source %q is not a regular file'' [''missing''] [])),
          mem_tx [CopyOperation ''a'' ''b'', bad_op] done_plan True)"
proof -
  let ?ft = "mem_tx validate_plan done_plan False"
  let ?fo = "mem_tx overwrite_plan done_plan True"
  let ?fn = "mem_tx [CopyOperation ''a'' ''b'', bad_op] done_plan True"
  have ov: "\<not> overwrite ?ft" "overwrite ?fo" "overwrite ?fn" by (simp_all add: mem_tx_def)
  have o1: "operations ?ft = [CopyOperation ''a'' ''b''] @ bad_op # [CopyOperation [] ''x'']"
    by (simp add: validate_plan_def)
  have o2: "operations ?fo = [CopyOperation ''a'' ''b''] @ CopyOperation [] ''x'' # [bad_op]"
    by (simp add: overwrite_plan_def)
  have o3: "operations ?fn = [CopyOperation ''a'' ''b''] @ bad_op # []"
    by simp
  have h1: "list_all (\<lambda>x. ValidateCopyArgs (Files mem_os) (Source x) (Destination x) world0 = None)
     [CopyOperation ''a'' ''b'']"
    by code_simp
  have h2: "ValidateCopyArgs (Files mem_os) (Source bad_op) (Destination bad_op) world0 = Some bad_source"
    by code_simp
  have h3: "ValidateCopyArgs (Files mem_os) [] ''x'' world0 \<noteq> None"
    by code_simp
  have h4: "list_all (\<lambda>x. Source x \<noteq> [] \<and> Destination x \<noteq> [] \<and> IsFile (Files mem_os) (Source x) world0)
        [CopyOperation ''a'' ''b'']"
    by code_simp
  have h5: "\<not> IsFile (Files mem_os) (Source bad_op) world0"
    by code_simp
  have h6: "Source bad_op \<noteq> []" "Destination bad_op \<noteq> []" "Source bad_op = ''missing''"
    by (simp_all add: bad_op_def)
  note t1 = validate_fail_fast_read_only [where ft = ?ft and w = world0
      and pre = "[CopyOperation ''a'' ''b'']" and op = bad_op and rest = "[CopyOperation [] ''x'']"
      and err = bad_source]
  note t2 = validate_fail_fast_read_only [where ft = ?fo and w = world0
      and pre = "[CopyOperation ''a'' ''b'']" and op = "CopyOperation [] ''x''" and rest = "[bad_op]"]
  note t3 = validate_fail_fast_read_only [where ft = ?fn and w = world0
      and pre = "[CopyOperation ''a'' ''b'']" and op = bad_op and rest = "[]"]
  from t1 o1 ov(1) h1 h2
  have a: "FileTransaction_Validate ?ft world0
       = (Some (TransactionError ''planning'' (Some bad_op) bad_source), ?ft)"
    by simp
  from t2 o2 ov(2) h4
  have b: "FileTransaction_Validate ?fo world0
       = (Some (TransactionError ''planning'' (Some (CopyOperation [] ''x''))
                  (Errorf ''source and destination must be provided'' [] [])), ?fo)"
    by simp
  from t3 o3 ov(3) h4 h5 h6
  have c: "FileTransaction_Validate ?fn world0
       = (Some (TransactionError ''planning'' (Some bad_op)
                  (Errorf ''source %q is not a regular file'' [''missing''] [])), ?fn)"
    by simp
  from h1 h2 h3 h4 h5 a b c show ?thesis by blast
qed

lemma existing_destination_rejected:
  "os_Stat os (Destination op) w = Inr info \<Longrightarrow> validate_op (Files os) False op w \<noteq> None"
  by (simp add: validate_op_def Files_def Files_ValidateCopyArgs_def split: option.splits)

lemma validate_loop_member_fails:
  "op \<in> set ops \<Longrightarrow> validate_op svc ov op w \<noteq> None \<Longrightarrow> validate_loop svc ov ops w \<noteq> None"
  by (induction ops) (auto split: option.splits)

lemma validate_op_overwrite:
  "validate_op (Files os) True op w = None
   \<longleftrightarrow> Source op \<noteq> [] \<and> Destination op \<noteq> [] \<and> Files_IsFile os (Source op) w"
  by (auto simp: validate_op_def Files_def)

text \<open>
  C5.  With the implementation \<open>Files\<close> as collaborator: when the destination of some
  operation of the plan exists (\<open>os.Stat\<close> succeeds on it), \<open>Validate\<close> with overwrite
  disabled returns an error.  With overwrite enabled \<open>Validate\<close> succeeds exactly when
  every operation has non-empty source and destination strings and a source that is an
  existing regular file; the destination is not looked at.
\<close>

theorem overwrite_relaxes_destination_check:
  "(op \<in> set ops \<and> os_Stat os (Destination op) w = Inr info \<longrightarrow>
      fst (FileTransaction_Validate
             \<lparr>fs = Files os, operations = ops, completed = cs, overwrite = False\<rparr> w) \<noteq> None)
   \<and> (fst (FileTransaction_Validate
             \<lparr>fs = Files os, operations = ops, completed = cs, overwrite = True\<rparr> w) = None
        \<longleftrightarrow> list_all (\<lambda>x. Source x \<noteq> [] \<and> Destination x \<noteq> [] \<and> Files_IsFile os (Source x) w) ops)"
  using validate_loop_member_fails [of op ops "Files os" False w]
    existing_destination_rejected [of os op w info]
  by (auto simp: FileTransaction_Validate_def validate_loop_None validate_op_overwrite)

theorem overwrite_relaxes_destination_check_witness:
  "CopyOperation ''a'' ''b'' \<in> set [CopyOperation ''a'' ''b'']
   \<and> os_Stat mem_os ''b'' world_ab = Inr False
   \<and> list_all (\<lambda>x. Source x \<noteq> [] \<and> Destination x \<noteq> [] \<and> Files_IsFile mem_os (Source x) world_ab)
        [CopyOperation ''a'' ''b'']
   \<and> fst (FileTransaction_Validate
        \<lparr>fs = Files mem_os, operations = [CopyOperation ''a'' ''b''], completed = [], overwrite = False\<rparr>
        world_ab) \<noteq> None
   \<and> fst (FileTransaction_Validate
        \<lparr>fs = Files mem_os, operations = [CopyOperation ''a'' ''b''], completed = [], overwrite = True\<rparr>
        world_ab) = None"
proof -
  have h1: "CopyOperation ''a'' ''b'' \<in> set [CopyOperation ''a'' ''b'']" by simp
  have h2: "os_Stat mem_os (Destination (CopyOperation ''a'' ''b'')) world_ab = Inr False"
    by code_simp
  have h3: "list_all (\<lambda>x. Source x \<noteq> [] \<and> Destination x \<noteq> [] \<and> Files_IsFile mem_os (Source x) world_ab)
        [CopyOperation ''a'' ''b'']"
    by code_simp
  note t = overwrite_relaxes_destination_check [where os = mem_os and w = world_ab
      and op = "CopyOperation ''a'' ''b''" and ops = "[CopyOperation ''a'' ''b'']" and info = False
      and cs = "[]"]
  from t h1 h2 have a: "fst (FileTransaction_Validate
        \<lparr>fs = Files mem_os, operations = [CopyOperation ''a'' ''b''], completed = [], overwrite = False\<rparr>
        world_ab) \<noteq> None"
    by blast
  from t h3 have b: "fst (FileTransaction_Validate
        \<lparr>fs = Files mem_os, operations = [CopyOperation ''a'' ''b''], completed = [], overwrite = True\<rparr>
        world_ab) = None"
    by blast
  from h2 have h2': "os_Stat mem_os ''b'' world_ab = Inr False" by simp
  from h1 h2' h3 a b show ?thesis by blast
qed

section \<open>The in-memory file system\<close>

lemma mem_os_simps [simp]:
  "os_Stat mem_os = mem_Stat" "os_Remove mem_os = mem_Remove" "os_Rename mem_os = mem_Rename"
  "os_MkdirAll mem_os = (\<lambda>p perm w. mkdir_all p w)" "filepath_Dir mem_os = mem_Dir"
  "copy_file mem_os = mem_copy_file"
  by (simp_all add: mem_os_def)

lemma map_of_filter_fst:
  "map_of (filter (\<lambda>x. fst x \<noteq> p) xs) q = (if q = p then None else map_of xs q)"
  by (induction xs) auto

lemma entries_put_file [simp]: "entries (put_file p c w) = (entries w)(p \<mapsto> c)"
  by (rule ext) (simp add: entries_def put_file_def map_of_filter_fst)

lemma entries_drop_file [simp]: "entries (drop_file p w) = (entries w)(p := None)"
  by (rule ext) (simp add: entries_def drop_file_def map_of_filter_fst)

lemma put_drop_other [simp]:
  "dirs (put_file p c w) = dirs w" "sealed (put_file p c w) = sealed w"
  "dirs (drop_file p w) = dirs w" "sealed (drop_file p w) = sealed w"
  "is_dir (put_file p c w) q = is_dir w q" "is_dir (drop_file p w) q = is_dir w q"
  by (simp_all add: put_file_def drop_file_def is_dir_def)

lemma extends_refl [simp]: "extends w w"
  by (simp add: extends_def)

lemma extends_trans: "extends a b \<Longrightarrow> extends b c \<Longrightarrow> extends a c"
  by (auto simp: extends_def)

lemma extends_is_dir: "extends w v \<Longrightarrow> is_dir w p \<Longrightarrow> is_dir v p"
  by (auto simp: extends_def is_dir_def)

lemma mkdir_all_extends: "mkdir_all p w = (r, w') \<Longrightarrow> extends w w'"
proof (induction p w arbitrary: r w' rule: mkdir_all.induct)
  case (1 p w)
  show ?case
  proof (cases "p \<noteq> [] \<and> \<not> is_dir w p \<and> entries w p = None \<and> length (mem_Dir p) < length p")
    case True
    obtain r1 w1 where m: "mkdir_all (mem_Dir p) w = (r1, w1)"
      by (cases "mkdir_all (mem_Dir p) w")
    from True have ih: "extends w w1"
      using "1.IH" [OF _ _ _ _ m] by simp
    from "1.prems" True m have "w' = w1 \<or> w' = w1\<lparr>dirs := p # dirs w1\<rparr>"
      by (subst (asm) mkdir_all.simps) (auto split: option.splits)
    then show ?thesis
      using ih by (auto simp: extends_def entries_def)
  next
    case False
    from "1.prems" False have "w' = w \<or> w' = w\<lparr>dirs := p # dirs w\<rparr>"
      by (subst (asm) mkdir_all.simps) (auto split: if_splits)
    then show ?thesis by (auto simp: extends_def entries_def)
  qed
qed



lemma tree_like_extends:
  "tree_like w \<Longrightarrow> files v = files w \<Longrightarrow> set (dirs w) \<subseteq> set (dirs v) \<Longrightarrow> tree_like v"
  by (auto simp: tree_like_def list_all_iff is_dir_def)



lemma mkdir_all_files: "mkdir_all p w = (r, w') \<Longrightarrow> files w' = files w"
proof (induction p w arbitrary: r w' rule: mkdir_all.induct)
  case (1 p w)
  show ?case
  proof (cases "p \<noteq> [] \<and> \<not> is_dir w p \<and> entries w p = None \<and> length (mem_Dir p) < length p")
    case True
    obtain r1 w1 where m: "mkdir_all (mem_Dir p) w = (r1, w1)"
      by (cases "mkdir_all (mem_Dir p) w")
    from True have ih: "files w1 = files w"
      using "1.IH" [OF _ _ _ _ m] by simp
    from "1.prems" True m have "w' = w1 \<or> w' = w1\<lparr>dirs := p # dirs w1\<rparr>"
      by (subst (asm) mkdir_all.simps) (auto split: option.splits)
    then show ?thesis using ih by auto
  next
    case False
    from "1.prems" False have "w' = w \<or> w' = w\<lparr>dirs := p # dirs w\<rparr>"
      by (subst (asm) mkdir_all.simps) (auto split: if_splits)
    then show ?thesis by auto
  qed
qed

lemma mkdir_all_tree_like: "tree_like w \<Longrightarrow> mkdir_all p w = (r, w') \<Longrightarrow> tree_like w'"
  using mkdir_all_files [of p w r w'] mkdir_all_extends [of p w r w']
  by (auto intro: tree_like_extends simp: extends_def)










section \<open>The files after a failed execution\<close>



text \<open>
  A move does not look at its destination.  When two moves of a plan have the same
  destination, \<open>Validate\<close> accepts the plan as long as the destination does not exist yet;
  the second move then replaces the file the first one put there, and after a later failure
  the rollback of the first move finds nothing to rename back, which it takes for success:
  the first file is lost although the original error is returned.
\<close>

lemma colliding_moves_lose_a_file:
  "tree_like world0
   \<and> fst (FileTransaction_Validate (mem_tx colliding_plan [] False) world0)
       = Some (TransactionError ''planning'' (Some bad_op) bad_source)
   \<and> fst (FileTransaction_Validate (mem_tx [MoveOperation ''a'' ''b'', MoveOperation ''c'' ''b''] [] False)
           world0) = None
   \<and> \<not> moves_onto_nothing (Files mem_os) mem_os [MoveOperation ''a'' ''b'', MoveOperation ''c'' ''b''] world0
   \<and> fst (FileTransaction_Execute mem_os (mem_tx colliding_plan [] False) world0)
       = Some (TransactionError ''execution'' (Some bad_op) bad_source)
   \<and> entries world0 ''a'' = Some ''A''
   \<and> entries (snd (snd (FileTransaction_Execute mem_os (mem_tx colliding_plan [] False) world0))) ''a'' = None
   \<and> entries (snd (snd (FileTransaction_Execute mem_os (mem_tx colliding_plan [] False) world0))) ''b'' = None
   \<and> entries (snd (snd (FileTransaction_Execute mem_os (mem_tx colliding_plan [] False) world0))) ''c''
       = Some ''C''"
  by code_simp

section \<open>Rollback of one operation\<close>




end
